theory Spec2Isabelle
  imports Complex_Main "HOL-Library.Multiset"
begin

section \<open>Data model\<close>

text \<open>
  The rows follow \<^verbatim>\<open>src/integrations/supabase/types.ts\<close> and the interfaces declared at
  the head of each page. Identifiers (uuid strings) are \<open>string\<close>; quantities are \<open>int\<close>;
  prices are \<open>real\<close> (the arithmetic of JavaScript numbers is taken as exact); a
  timestamp is the number of milliseconds since the epoch. The columns \<open>created_at\<close> and
  \<open>updated_at\<close> are kept only where a page reads them.
\<close>

type_synonym timestamp = int

record material =
  m_id :: string
  m_name :: string
  m_description :: "string option"
  m_price :: real
  m_stock :: int
  m_unit :: string
  m_supplier_id :: string

record group_order =
  go_id :: string
  go_material_id :: string
  go_total_quantity :: int
  go_current_price :: real
  go_min_quantity :: int
  go_participants :: "string list"
  go_expires_at :: timestamp
  go_status :: string

record order_row =
  o_id :: string
  o_vendor_id :: string
  o_supplier_id :: string
  o_material_id :: string
  o_quantity :: int
  o_total_price :: real
  o_type :: string
  o_status :: string
  o_created_at :: timestamp

record cart_item =
  ci_id :: string
  ci_vendor_id :: string
  ci_material_id :: string
  ci_quantity :: int

record participant_row =
  gp_group_order_id :: string
  gp_vendor_id :: string
  gp_quantity :: int

record summary_log =
  sl_vendor_id :: string
  sl_order_id :: string
  sl_summary :: string

record database =
  materials_tbl :: "material list"
  group_orders_tbl :: "group_order list"
  orders_tbl :: "order_row list"
  cart_items_tbl :: "cart_item list"
  group_order_participants_tbl :: "participant_row list"
  order_summary_logs_tbl :: "summary_log list"

section \<open>The hosted backend\<close>

text \<open>
  Modelled from the spec: the hosted relational backend and its query builder are not
  part of the sources; the spec calls it a relational backend with row-level query
  filters. A table is the list of its rows; \<open>.eq\<close> and \<open>.gt\<close> keep the rows that satisfy
  the comparison, \<open>.update(..).eq(..)\<close> rewrites every row that satisfies the filter and
  leaves the others in place, \<open>.insert\<close> adds one row. A request either fails as a
  whole and changes nothing, or is carried out; which of the two happens, and the column
  defaults the backend fills in on insert, are inputs of the model.
\<close>

definition update_where :: "('a \<Rightarrow> bool) \<Rightarrow> ('a \<Rightarrow> 'a) \<Rightarrow> 'a list \<Rightarrow> 'a list" where
  "update_where P f rows = map (\<lambda>r. if P r then f r else r) rows"

definition maybeSingle :: "'a list \<Rightarrow> 'a option" where
  "maybeSingle rows = (case rows of [r] \<Rightarrow> Some r | _ \<Rightarrow> None)"

record insert_reply =
  fails :: bool
  new_id :: string
  default_status :: string
  server_time :: timestamp

section \<open>Supplier dashboard (SupplierDashboard.tsx)\<close>

record supplier_dashboard =
  sd_user :: "string option"
  sd_materials :: "material list"
  sd_orders :: "order_row list"
  sd_loading :: bool

definition supplier_fetchMaterials ::
  "bool \<Rightarrow> database \<Rightarrow> supplier_dashboard \<Rightarrow> supplier_dashboard" where
  "supplier_fetchMaterials request_fails db d =
    (case sd_user d of
       None \<Rightarrow> d
     | Some uid \<Rightarrow>
         if request_fails then d
         else d\<lparr>sd_materials := filter (\<lambda>r. m_supplier_id r = uid) (materials_tbl db)\<rparr>)"

text \<open>
  \<open>fetchOrders\<close> asks for the rows in descending \<open>created_at\<close> order; the embedded
  \<open>materials (*)\<close> relation is only displayed and is left out.
\<close>

definition supplier_fetchOrders ::
  "bool \<Rightarrow> database \<Rightarrow> supplier_dashboard \<Rightarrow> supplier_dashboard" where
  "supplier_fetchOrders request_fails db d =
    (case sd_user d of
       None \<Rightarrow> d
     | Some uid \<Rightarrow>
         if request_fails then d\<lparr>sd_loading := False\<rparr>
         else d\<lparr>sd_orders :=
                  rev (sort_key o_created_at
                         (filter (\<lambda>r. o_supplier_id r = uid) (orders_tbl db))),
                sd_loading := False\<rparr>)"

definition updateOrderStatus :: "bool \<Rightarrow> string \<Rightarrow> string \<Rightarrow> database \<Rightarrow> database" where
  "updateOrderStatus request_fails orderId status db =
    (if request_fails then db
     else db\<lparr>orders_tbl :=
               update_where (\<lambda>r. o_id r = orderId) (\<lambda>r. r\<lparr>o_status := status\<rparr>)
                 (orders_tbl db)\<rparr>)"

text \<open>
  The buttons rendered for an order of the fetched list (lines 395 to 422): each one
  calls \<open>updateOrderStatus\<close> with the order's id and the status listed here.
\<close>

definition offered_statuses :: "order_row \<Rightarrow> string list" where
  "offered_statuses order =
    (if o_status order = ''pending'' then [''confirmed'', ''cancelled'']
     else if o_status order = ''confirmed'' then [''delivered'']
     else [])"

definition click_status_button ::
  "bool \<Rightarrow> supplier_dashboard \<Rightarrow> order_row \<Rightarrow> string \<Rightarrow> database \<Rightarrow> database" where
  "click_status_button request_fails d order status db =
    (if order \<in> set (sd_orders d) \<and> status \<in> set (offered_statuses order)
     then updateOrderStatus request_fails (o_id order) status db
     else db)"

section \<open>Vendor dashboard (VendorDashboard.tsx)\<close>

text \<open>
  The file holds two revisions of the page. The first (lines 1 to 347) has
  \<open>placeIndividualOrder\<close> and \<open>joinGroupOrder\<close> without a quantity; the second (from line
  347) adds the cart, the order summary dialog and a quantity for \<open>joinGroupOrder\<close>. The
  functions of the first revision carry the suffix \<open>_v1\<close>, those of the second \<open>_v2\<close>.
  \<open>vd_user\<close> is \<open>user.id\<close> when somebody is logged in, \<open>vd_profile\<close> the profile's name
  once it is loaded. Toasts and console output are not part of the state.
\<close>

record vendor_dashboard =
  vd_user :: "string option"
  vd_profile :: "string option"
  vd_materials :: "material list"
  vd_groupOrders :: "group_order list"
  vd_loading :: bool
  vd_selectedMaterial :: "material option"
  vd_orderSummary :: string
  vd_showOrderSummary :: bool

definition vendor_fetchMaterials ::
  "bool \<Rightarrow> database \<Rightarrow> vendor_dashboard \<Rightarrow> vendor_dashboard" where
  "vendor_fetchMaterials request_fails db d =
    (if request_fails then d
     else d\<lparr>vd_materials := filter (\<lambda>r. 0 < m_stock r) (materials_tbl db)\<rparr>)"

text \<open>\<open>now\<close> is the value of \<open>new Date()\<close> when the request is built.\<close>

definition fetchGroupOrders ::
  "bool \<Rightarrow> timestamp \<Rightarrow> database \<Rightarrow> vendor_dashboard \<Rightarrow> vendor_dashboard" where
  "fetchGroupOrders request_fails now db d =
    (if request_fails then d\<lparr>vd_loading := False\<rparr>
     else d\<lparr>vd_groupOrders :=
              filter (\<lambda>r. go_status r = ''open'' \<and> now < go_expires_at r)
                (group_orders_tbl db),
            vd_loading := False\<rparr>)"

text \<open>The object handed to \<open>.from('orders').insert\<close>, and the insert itself.\<close>

record order_insert =
  oi_vendor_id :: string
  oi_supplier_id :: string
  oi_material_id :: string
  oi_quantity :: int
  oi_total_price :: real
  oi_type :: string

definition insert_order :: "insert_reply \<Rightarrow> order_insert \<Rightarrow> database \<Rightarrow> database" where
  "insert_order reply p db =
    (if fails reply then db
     else db\<lparr>orders_tbl := orders_tbl db @
            [\<lparr>o_id = new_id reply, o_vendor_id = oi_vendor_id p,
              o_supplier_id = oi_supplier_id p, o_material_id = oi_material_id p,
              o_quantity = oi_quantity p, o_total_price = oi_total_price p,
              o_type = oi_type p, o_status = default_status reply,
              o_created_at = server_time reply\<rparr>]\<rparr>)"

definition placeIndividualOrder_v1 ::
  "insert_reply \<Rightarrow> vendor_dashboard \<Rightarrow> string \<Rightarrow> int \<Rightarrow> database \<Rightarrow> database" where
  "placeIndividualOrder_v1 reply d materialId quantity db =
    (case vd_user d of
       None \<Rightarrow> db
     | Some uid \<Rightarrow>
        (case vd_profile d of
           None \<Rightarrow> db
         | Some _ \<Rightarrow>
            (case find (\<lambda>m. m_id m = materialId) (vd_materials d) of
               None \<Rightarrow> db
             | Some material \<Rightarrow>
                 insert_order reply
                   \<lparr>oi_vendor_id = uid, oi_supplier_id = m_supplier_id material,
                    oi_material_id = materialId, oi_quantity = quantity,
                    oi_total_price = m_price material * of_int quantity,
                    oi_type = ''individual''\<rparr> db)))"

text \<open>
  In the second revision \<open>placeIndividualOrder\<close> only fills the summary dialog and
  returns the closure \<open>confirmOrder\<close>; the closure is represented by what it captures.
  \<open>summary_of\<close> stands for the template string of lines 500 to 505.
\<close>

record pending_order =
  po_user :: string
  po_material :: material
  po_materialId :: string
  po_quantity :: int
  po_summary :: string

definition placeIndividualOrder_v2 ::
  "(material \<Rightarrow> int \<Rightarrow> string) \<Rightarrow> vendor_dashboard \<Rightarrow> string \<Rightarrow> int
     \<Rightarrow> vendor_dashboard \<times> pending_order option" where
  "placeIndividualOrder_v2 summary_of d materialId quantity =
    (case vd_user d of
       None \<Rightarrow> (d, None)
     | Some uid \<Rightarrow>
        (case vd_profile d of
           None \<Rightarrow> (d, None)
         | Some _ \<Rightarrow>
            (case find (\<lambda>m. m_id m = materialId) (vd_materials d) of
               None \<Rightarrow> (d, None)
             | Some material \<Rightarrow>
                 (d\<lparr>vd_orderSummary := summary_of material quantity,
                    vd_showOrderSummary := True\<rparr>,
                  Some \<lparr>po_user = uid, po_material = material, po_materialId = materialId,
                        po_quantity = quantity,
                        po_summary = summary_of material quantity\<rparr>))))"

definition confirmOrder ::
  "insert_reply \<Rightarrow> bool \<Rightarrow> pending_order \<Rightarrow> vendor_dashboard \<Rightarrow> database
     \<Rightarrow> database \<times> vendor_dashboard" where
  "confirmOrder reply log_fails p d db =
    (if fails reply then (db, d)
     else
       (let db1 = insert_order reply
                    \<lparr>oi_vendor_id = po_user p,
                     oi_supplier_id = m_supplier_id (po_material p),
                     oi_material_id = po_materialId p, oi_quantity = po_quantity p,
                     oi_total_price = m_price (po_material p) * of_int (po_quantity p),
                     oi_type = ''individual''\<rparr> db;
            db2 = (if log_fails then db1
                   else db1\<lparr>order_summary_logs_tbl := order_summary_logs_tbl db1 @
                          [\<lparr>sl_vendor_id = po_user p, sl_order_id = [],
                            sl_summary = po_summary p\<rparr>]\<rparr>)
        in (db2, d\<lparr>vd_showOrderSummary := False\<rparr>)))"

definition confirmIndividualOrder ::
  "(material \<Rightarrow> int \<Rightarrow> string) \<Rightarrow> insert_reply \<Rightarrow> bool \<Rightarrow> vendor_dashboard \<Rightarrow> database
     \<Rightarrow> database \<times> vendor_dashboard" where
  "confirmIndividualOrder summary_of reply log_fails d db =
    (case placeIndividualOrder_v2 summary_of d
            (case vd_selectedMaterial d of Some m \<Rightarrow> m_id m | None \<Rightarrow> []) 1 of
       (d1, None) \<Rightarrow> (db, d1)
     | (d1, Some p) \<Rightarrow> confirmOrder reply log_fails p d1 db)"

text \<open>
  \<open>joinGroupOrder\<close> looks the group order up in the list the dashboard fetched, not in
  the table, and writes the two columns computed from that copy. The call of
  \<open>fetchGroupOrders\<close> that follows a successful join is not awaited; it is a separate
  step of the model.
\<close>

definition joinGroupOrder_v1 ::
  "bool \<Rightarrow> vendor_dashboard \<Rightarrow> string \<Rightarrow> database \<Rightarrow> database" where
  "joinGroupOrder_v1 update_fails d groupOrderId db =
    (case vd_user d of
       None \<Rightarrow> db
     | Some uid \<Rightarrow>
        (case find (\<lambda>go. go_id go = groupOrderId) (vd_groupOrders d) of
           None \<Rightarrow> db
         | Some groupOrder \<Rightarrow>
             if uid \<in> set (go_participants groupOrder) then db
             else if update_fails then db
             else db\<lparr>group_orders_tbl :=
                       update_where (\<lambda>r. go_id r = groupOrderId)
                         (\<lambda>r. r\<lparr>go_participants := go_participants groupOrder @ [uid],
                                 go_total_quantity := go_total_quantity groupOrder + 1\<rparr>)
                         (group_orders_tbl db)\<rparr>))"

definition joinGroupOrder_v2 ::
  "bool \<Rightarrow> bool \<Rightarrow> vendor_dashboard \<Rightarrow> string \<Rightarrow> int \<Rightarrow> database \<Rightarrow> database" where
  "joinGroupOrder_v2 insert_fails update_fails d groupOrderId quantity db =
    (case vd_user d of
       None \<Rightarrow> db
     | Some uid \<Rightarrow>
        (case find (\<lambda>go. go_id go = groupOrderId) (vd_groupOrders d) of
           None \<Rightarrow> db
         | Some groupOrder \<Rightarrow>
             if uid \<in> set (go_participants groupOrder) then db
             else if insert_fails then db
             else
               (let db1 = db\<lparr>group_order_participants_tbl :=
                               group_order_participants_tbl db @
                               [\<lparr>gp_group_order_id = groupOrderId, gp_vendor_id = uid,
                                 gp_quantity = quantity\<rparr>]\<rparr>
                in if update_fails then db1
                   else db1\<lparr>group_orders_tbl :=
                       update_where (\<lambda>r. go_id r = groupOrderId)
                         (\<lambda>r. r\<lparr>go_participants := go_participants groupOrder @ [uid],
                                 go_total_quantity :=
                                   go_total_quantity groupOrder + quantity\<rparr>)
                         (group_orders_tbl db1)\<rparr>)))"

text \<open>
  The Join button of a listed group order (lines 295 to 302 and 778 to 785) is disabled
  when the user's id (the empty string when nobody is logged in) is among the
  participants of the fetched copy.
\<close>

definition join_button_enabled :: "vendor_dashboard \<Rightarrow> group_order \<Rightarrow> bool" where
  "join_button_enabled d groupOrder =
    (groupOrder \<in> set (vd_groupOrders d) \<and>
     (case vd_user d of Some uid \<Rightarrow> uid | None \<Rightarrow> []) \<notin> set (go_participants groupOrder))"

text \<open>
  \<open>addToCart\<close>: \<open>maybeSingle\<close> yields the row when exactly one row matches and no data
  otherwise; a lookup whose request fails (\<open>select_fails\<close>) yields no data either. The
  function takes \<open>data\<close> alone from the answer, so an error of the lookup is not looked
  at. The test \<open>existingItem && existingItem.quantity\<close> is the truthiness of both, so a
  row whose quantity is 0 takes the insert branch.
\<close>

definition addToCart ::
  "bool \<Rightarrow> insert_reply \<Rightarrow> vendor_dashboard \<Rightarrow> string \<Rightarrow> int \<Rightarrow> database \<Rightarrow> database" where
  "addToCart select_fails reply d materialId quantity db =
    (case vd_user d of
       None \<Rightarrow> db
     | Some uid \<Rightarrow>
        (case (if select_fails then None
               else maybeSingle
                      (filter (\<lambda>r. ci_vendor_id r = uid \<and> ci_material_id r = materialId)
                         (cart_items_tbl db))) of
           None \<Rightarrow>
             (if fails reply then db
              else db\<lparr>cart_items_tbl := cart_items_tbl db @
                     [\<lparr>ci_id = new_id reply, ci_vendor_id = uid,
                       ci_material_id = materialId, ci_quantity = quantity\<rparr>]\<rparr>)
         | Some existingItem \<Rightarrow>
             if ci_quantity existingItem \<noteq> 0 then
               (if fails reply then db
                else db\<lparr>cart_items_tbl :=
                       update_where (\<lambda>r. ci_id r = ci_id existingItem)
                         (\<lambda>r. r\<lparr>ci_quantity := ci_quantity existingItem + quantity\<rparr>)
                         (cart_items_tbl db)\<rparr>)
             else
               (if fails reply then db
                else db\<lparr>cart_items_tbl := cart_items_tbl db @
                       [\<lparr>ci_id = new_id reply, ci_vendor_id = uid,
                         ci_material_id = materialId, ci_quantity = quantity\<rparr>]\<rparr>)))"

text \<open>At most one cart row for each pair of vendor and material.\<close>

definition cart_pairs_unique :: "cart_item list \<Rightarrow> bool" where
  "cart_pairs_unique rows = distinct (map (\<lambda>r. (ci_vendor_id r, ci_material_id r)) rows)"

section \<open>Group order modal (GroupOrderModal.tsx)\<close>

text \<open>
  The state of the form. The two counts are whole numbers, as the number inputs of the
  form step by whole numbers.
\<close>

record form_data =
  minQuantity :: int
  discountedPrice :: real
  expiryDays :: int
  description :: string

definition initial_formData :: "material option \<Rightarrow> form_data" where
  "initial_formData material =
    \<lparr>minQuantity = 100,
     discountedPrice =
       (case material of
          None \<Rightarrow> 0
        | Some m \<Rightarrow> if m_price m \<noteq> 0 then m_price m * (9 / 10) else 0),
     expiryDays = 7,
     description = []\<rparr>"

text \<open>The effect that runs when the \<open>material\<close> property changes (lines 86 to 93).\<close>

definition material_effect :: "material option \<Rightarrow> form_data \<Rightarrow> form_data" where
  "material_effect material prev =
    (case material of
       None \<Rightarrow> prev
     | Some m \<Rightarrow> prev\<lparr>discountedPrice := m_price m * (9 / 10)\<rparr>)"

text \<open>
  \<open>expiryDate.setDate(expiryDate.getDate() + n)\<close> works on the local calendar. The time
  zone of the browser is an input: \<open>tza_utc z t\<close> is the offset of local time from UTC at
  the UTC time \<open>t\<close>, \<open>tza_local z l\<close> the offset at the local time \<open>l\<close> (the two readings
  of \<open>LocalTZA\<close> in the language definition). The date is taken to local time, moved by
  \<open>n\<close> days of 86400000 ms there, and taken back to UTC; a result outside the range of
  \<open>Date\<close> is an invalid date, for which \<open>toISOString\<close> throws.
\<close>

record local_zone =
  tza_utc :: "timestamp \<Rightarrow> int"
  tza_local :: "timestamp \<Rightarrow> int"

definition setDate_plus :: "local_zone \<Rightarrow> timestamp \<Rightarrow> int \<Rightarrow> timestamp option" where
  "setDate_plus z t n =
    (let moved = t + tza_utc z t + n * 86400000;
         u = moved - tza_local z moved
     in if \<bar>u\<bar> \<le> 8640000000000000 then Some u else None)"

record group_order_insert =
  gi_material_id :: string
  gi_min_quantity :: int
  gi_current_price :: real
  gi_expires_at :: timestamp
  gi_participants :: "string list"
  gi_total_quantity :: int

definition insert_group_order ::
  "insert_reply \<Rightarrow> group_order_insert \<Rightarrow> database \<Rightarrow> database" where
  "insert_group_order reply p db =
    (if fails reply then db
     else db\<lparr>group_orders_tbl := group_orders_tbl db @
            [\<lparr>go_id = new_id reply, go_material_id = gi_material_id p,
              go_total_quantity = gi_total_quantity p,
              go_current_price = gi_current_price p,
              go_min_quantity = gi_min_quantity p,
              go_participants = gi_participants p,
              go_expires_at = gi_expires_at p,
              go_status = default_status reply\<rparr>]\<rparr>)"

text \<open>
  \<open>now\<close> is the value of \<open>new Date()\<close>. The expiry date is computed before the request
  is built; when it is invalid the exception of \<open>toISOString\<close> is caught and nothing is
  sent.
\<close>

definition createGroupOrder ::
  "local_zone \<Rightarrow> insert_reply \<Rightarrow> string option \<Rightarrow> material option \<Rightarrow> form_data
     \<Rightarrow> timestamp \<Rightarrow> database \<Rightarrow> database" where
  "createGroupOrder z reply user material formData now db =
    (case user of
       None \<Rightarrow> db
     | Some uid \<Rightarrow>
        (case material of
           None \<Rightarrow> db
         | Some m \<Rightarrow>
            (case setDate_plus z now (expiryDays formData) of
               None \<Rightarrow> db
             | Some expiryDate \<Rightarrow>
                 insert_group_order reply
                   \<lparr>gi_material_id = m_id m, gi_min_quantity = minQuantity formData,
                    gi_current_price = discountedPrice formData,
                    gi_expires_at = expiryDate,
                    gi_participants = [uid], gi_total_quantity = 1\<rparr> db)))"

section \<open>Analytics (Analytics.tsx)\<close>

text \<open>
  \<open>calculateVolatility\<close> draws two values of \<open>Math.random()\<close> for each material, in the
  order of the fetched rows. The draws are the input \<open>rnd\<close>: \<open>rnd k\<close> is the value of the
  \<open>k\<close>-th call. \<open>Number(x.toFixed(2))\<close> rounds a non-negative number to the nearest
  hundredth, halves upwards.
\<close>

record material_volatility =
  material_name :: string
  volatility :: real
  avg_price :: real
  price_changes :: int

definition toFixed2 :: "real \<Rightarrow> real" where
  "toFixed2 x = of_int \<lfloor>x * 100 + 1 / 2\<rfloor> / 100"

fun simulate :: "(nat \<Rightarrow> real) \<Rightarrow> nat \<Rightarrow> material list \<Rightarrow> material_volatility list" where
  "simulate rnd k [] = []"
| "simulate rnd k (m # ms) =
     \<lparr>material_name = m_name m,
      volatility = toFixed2 (rnd k * 20),
      avg_price = m_price m,
      price_changes = \<lfloor>rnd (Suc k) * 10\<rfloor> + 1\<rparr> # simulate rnd (Suc (Suc k)) ms"

definition calculateVolatility ::
  "bool \<Rightarrow> (nat \<Rightarrow> real) \<Rightarrow> database \<Rightarrow> material_volatility list
     \<Rightarrow> material_volatility list" where
  "calculateVolatility request_fails rnd db volatileMaterials =
    (if request_fails then volatileMaterials
     else take 8 (sort_key (\<lambda>v. - volatility v) (simulate rnd 0 (materials_tbl db))))"

section \<open>Runs of the join flow\<close>

text \<open>
  A join event carries the outcome of its requests and the dashboard (of any vendor)
  that performs it.
\<close>

datatype join_event =
  JoinV1 bool vendor_dashboard string
| JoinV2 bool bool vendor_dashboard string int

fun join_step :: "join_event \<Rightarrow> database \<Rightarrow> database" where
  "join_step (JoinV1 uf d gid) db = joinGroupOrder_v1 uf d gid db"
| "join_step (JoinV2 pf uf d gid q) db = joinGroupOrder_v2 pf uf d gid q db"

fun run_joins :: "join_event list \<Rightarrow> database \<Rightarrow> database" where
  "run_joins [] db = db"
| "run_joins (e # es) db = run_joins es (join_step e db)"

text \<open>
  The same vendor joins twice in a row. The list the second join reads is the list of
  the first join, unless the rows of some \<open>fetchGroupOrders\<close> are delivered between the
  two joins: \<open>delivered\<close> then holds the time that request was built at and the table
  state it read, which may be the state before the first join (a request still under
  way when the vendor joins) or after it (the request the join itself starts). Each
  join has its own request outcomes.
\<close>

definition join_twice_v1 ::
  "(timestamp \<times> database) option \<Rightarrow> bool \<Rightarrow> bool \<Rightarrow> vendor_dashboard \<Rightarrow> string
     \<Rightarrow> database \<Rightarrow> database" where
  "join_twice_v1 delivered uf1 uf2 d gid db =
    (let db1 = joinGroupOrder_v1 uf1 d gid db;
         d1 = (case delivered of
                 None \<Rightarrow> d
               | Some (now, read) \<Rightarrow> fetchGroupOrders False now read d)
     in joinGroupOrder_v1 uf2 d1 gid db1)"

definition join_twice_v2 ::
  "(timestamp \<times> database) option \<Rightarrow> bool \<Rightarrow> bool \<Rightarrow> bool \<Rightarrow> bool \<Rightarrow> vendor_dashboard
     \<Rightarrow> string \<Rightarrow> int \<Rightarrow> database \<Rightarrow> database" where
  "join_twice_v2 delivered pf1 uf1 pf2 uf2 d gid q db =
    (let db1 = joinGroupOrder_v2 pf1 uf1 d gid q db;
         d1 = (case delivered of
                 None \<Rightarrow> d
               | Some (now, read) \<Rightarrow> fetchGroupOrders False now read d)
     in joinGroupOrder_v2 pf2 uf2 d1 gid q db1)"

section \<open>Runs of the group-order fetch\<close>

text \<open>
  \<open>setGroupOrders\<close> is called by \<open>fetchGroupOrders\<close> only. A fetch event carries the
  outcome of the request, the time it was built at and the database it read.
  \<open>last_delivery\<close> is the time of the last fetch of a run that delivered rows.
\<close>

datatype fetch_event = FetchGroupOrders bool timestamp database

fun fetch_step :: "fetch_event \<Rightarrow> vendor_dashboard \<Rightarrow> vendor_dashboard" where
  "fetch_step (FetchGroupOrders request_fails now db) d = fetchGroupOrders request_fails now db d"

fun run_fetches :: "fetch_event list \<Rightarrow> vendor_dashboard \<Rightarrow> vendor_dashboard" where
  "run_fetches [] d = d"
| "run_fetches (e # es) d = run_fetches es (fetch_step e d)"

fun last_delivery :: "fetch_event list \<Rightarrow> timestamp option" where
  "last_delivery [] = None"
| "last_delivery (FetchGroupOrders request_fails now db # es) =
     (case last_delivery es of
        Some t \<Rightarrow> Some t
      | None \<Rightarrow> if request_fails then None else Some now)"

section \<open>The claims in the spec's words\<close>

text \<open>
  These three definitions follow the wording of the specification, not the code; the
  theorems below compare them with what the code does.
\<close>

text \<open>
  The price the spec lets a participant of a group order pay: the material's regular
  price below the threshold, the discounted price from the threshold on.
\<close>

definition spec_unit_price :: "material \<Rightarrow> real \<Rightarrow> group_order \<Rightarrow> real" where
  "spec_unit_price m discounted g =
    (if go_total_quantity g < go_min_quantity g then m_price m else discounted)"

text \<open>
  The effect the spec gives to a join with quantity \<open>q\<close> on the stored row: two columns
  move, relative to their stored values, and the rest of the row stays.
\<close>

definition spec_join_row :: "string \<Rightarrow> int \<Rightarrow> group_order \<Rightarrow> group_order \<Rightarrow> bool" where
  "spec_join_row uid q old new =
    (new = old\<lparr>go_total_quantity := go_total_quantity old + q,
               go_participants := go_participants old @ [uid]\<rparr>)"

text \<open>The status transitions the spec allows on the supplier dashboard.\<close>

definition spec_allowed_transition :: "string \<Rightarrow> string \<Rightarrow> bool" where
  "spec_allowed_transition old new =
    ((old = ''pending'' \<and> new = ''confirmed'') \<or>
     (old = ''pending'' \<and> new = ''cancelled'') \<or>
     (old = ''confirmed'' \<and> new = ''delivered''))"

section \<open>Example data\<close>

definition flour :: material where
  "flour = \<lparr>m_id = ''m1'', m_name = ''Flour'', m_description = None, m_price = 100,
            m_stock = 50, m_unit = ''kg'', m_supplier_id = ''s1''\<rparr>"

definition rice :: material where
  "rice = \<lparr>m_id = ''m2'', m_name = ''Rice'', m_description = Some ''basmati'', m_price = 40,
           m_stock = 10, m_unit = ''kg'', m_supplier_id = ''s2''\<rparr>"

definition pool :: group_order where
  "pool = \<lparr>go_id = ''g1'', go_material_id = ''m1'', go_total_quantity = 1,
           go_current_price = 90, go_min_quantity = 100, go_participants = [''v0''],
           go_expires_at = 20, go_status = ''open''\<rparr>"

definition order1 :: order_row where
  "order1 = \<lparr>o_id = ''o1'', o_vendor_id = ''v1'', o_supplier_id = ''s1'',
             o_material_id = ''m1'', o_quantity = 2, o_total_price = 200,
             o_type = ''individual'', o_status = ''pending'', o_created_at = 5\<rparr>"

definition order2 :: order_row where
  "order2 = \<lparr>o_id = ''o2'', o_vendor_id = ''v1'', o_supplier_id = ''s2'',
             o_material_id = ''m2'', o_quantity = 1, o_total_price = 40,
             o_type = ''individual'', o_status = ''pending'', o_created_at = 7\<rparr>"

definition shop :: database where
  "shop = \<lparr>materials_tbl = [flour, rice], group_orders_tbl = [pool],
           orders_tbl = [order1, order2], cart_items_tbl = [],
           group_order_participants_tbl = [], order_summary_logs_tbl = []\<rparr>"

text \<open>The example shop after vendor \<open>v2\<close> has joined the group order \<open>g1\<close>.\<close>

definition shop_after_v2 :: database where
  "shop_after_v2 =
    shop\<lparr>group_orders_tbl :=
           [pool\<lparr>go_participants := [''v0'', ''v2''], go_total_quantity := 2\<rparr>]\<rparr>"

text \<open>A browser on UTC, and one whose clock is set back by an hour at time 3600000.\<close>

definition utc_zone :: local_zone where
  "utc_zone = \<lparr>tza_utc = (\<lambda>t. 0), tza_local = (\<lambda>l. 0)\<rparr>"

definition autumn_zone :: local_zone where
  "autumn_zone =
    \<lparr>tza_utc = (\<lambda>t. if t < 3600000 then 7200000 else 3600000),
     tza_local = (\<lambda>l. if l < 10800000 then 7200000 else 3600000)\<rparr>"

text \<open>The state of either dashboard when it is mounted for a logged-in user.\<close>

definition vendor_at_mount :: "string \<Rightarrow> vendor_dashboard" where
  "vendor_at_mount uid =
    \<lparr>vd_user = Some uid, vd_profile = Some ''vendor'', vd_materials = [],
     vd_groupOrders = [], vd_loading = True, vd_selectedMaterial = None,
     vd_orderSummary = [], vd_showOrderSummary = False\<rparr>"

definition supplier_at_mount :: "string \<Rightarrow> supplier_dashboard" where
  "supplier_at_mount uid =
    \<lparr>sd_user = Some uid, sd_materials = [], sd_orders = [], sd_loading = True\<rparr>"

definition accepted :: "string \<Rightarrow> string \<Rightarrow> insert_reply" where
  "accepted rid st = \<lparr>fails = False, new_id = rid, default_status = st, server_time = 10\<rparr>"

section \<open>Supporting lemmas\<close>

lemma update_where_length [simp]: "length (update_where P f rows) = length rows"
  by (simp add: update_where_def)

lemma update_where_nth:
  "i < length rows \<Longrightarrow> update_where P f rows ! i = (if P (rows ! i) then f (rows ! i) else rows ! i)"
  by (simp add: update_where_def)

lemma update_where_twice:
  "(\<And>r. P r \<Longrightarrow> P (f r)) \<Longrightarrow> (\<And>r. P r \<Longrightarrow> f (f r) = f r) \<Longrightarrow>
   update_where P f (update_where P f rows) = update_where P f rows"
  by (simp add: update_where_def)

lemma find_Some_set: "find P xs = Some x \<Longrightarrow> x \<in> set xs \<and> P x"
  by (induction xs) (auto split: if_splits)

lemma join_v1_rows:
  assumes "vd_user d = Some uid"
    and "find (\<lambda>go. go_id go = gid) (vd_groupOrders d) = Some g"
    and "uid \<notin> set (go_participants g)"
  shows "joinGroupOrder_v1 False d gid db =
         db\<lparr>group_orders_tbl :=
              update_where (\<lambda>r. go_id r = gid)
                (\<lambda>r. r\<lparr>go_participants := go_participants g @ [uid],
                        go_total_quantity := go_total_quantity g + 1\<rparr>)
                (group_orders_tbl db)\<rparr>"
  using assms by (simp add: joinGroupOrder_v1_def)

lemma join_v2_rows:
  assumes "vd_user d = Some uid"
    and "find (\<lambda>go. go_id go = gid) (vd_groupOrders d) = Some g"
    and "uid \<notin> set (go_participants g)"
  shows "joinGroupOrder_v2 False False d gid q db =
         db\<lparr>group_order_participants_tbl := group_order_participants_tbl db @
               [\<lparr>gp_group_order_id = gid, gp_vendor_id = uid, gp_quantity = q\<rparr>],
            group_orders_tbl :=
              update_where (\<lambda>r. go_id r = gid)
                (\<lambda>r. r\<lparr>go_participants := go_participants g @ [uid],
                        go_total_quantity := go_total_quantity g + q\<rparr>)
                (group_orders_tbl db)\<rparr>"
  using assms by (simp add: joinGroupOrder_v2_def Let_def)

lemma find_updated_member:
  assumes "find (\<lambda>go. go_id go = gid)
             (filter Q (update_where (\<lambda>r. go_id r = gid)
                (\<lambda>r. r\<lparr>go_participants := ps @ [uid], go_total_quantity := t\<rparr>) rows)) = Some g'"
  shows "uid \<in> set (go_participants g')"
proof -
  from find_Some_set[OF assms] have id: "go_id g' = gid" and
    "g' \<in> set (update_where (\<lambda>r. go_id r = gid)
                (\<lambda>r. r\<lparr>go_participants := ps @ [uid], go_total_quantity := t\<rparr>) rows)"
    by simp_all
  then have "g' \<in> (\<lambda>r. if go_id r = gid
        then r\<lparr>go_participants := ps @ [uid], go_total_quantity := t\<rparr> else r) ` set rows"
    by (simp add: update_where_def)
  then obtain r where r: "g' = (if go_id r = gid
        then r\<lparr>go_participants := ps @ [uid], go_total_quantity := t\<rparr> else r)"
    by blast
  have "go_participants g' = ps @ [uid]"
  proof (cases "go_id r = gid")
    case True
    with r show ?thesis by simp
  next
    case False
    with r id show ?thesis by simp
  qed
  then show ?thesis by simp
qed

lemma join_v1_noop:
  "vd_user d = Some uid \<Longrightarrow>
   (\<And>g. find (\<lambda>go. go_id go = gid) (vd_groupOrders d) = Some g \<Longrightarrow> uid \<in> set (go_participants g)) \<Longrightarrow>
   joinGroupOrder_v1 uf d gid db = db"
  by (simp add: joinGroupOrder_v1_def split: option.splits)

lemma join_v1_no_user: "vd_user d = None \<Longrightarrow> joinGroupOrder_v1 uf d gid db = db"
  by (simp add: joinGroupOrder_v1_def)

lemma join_v1_not_listed:
  "find (\<lambda>go. go_id go = gid) (vd_groupOrders d) = None \<Longrightarrow> joinGroupOrder_v1 uf d gid db = db"
  by (simp add: joinGroupOrder_v1_def split: option.splits)

lemma join_v2_noop:
  "vd_user d = Some uid \<Longrightarrow>
   (\<And>g. find (\<lambda>go. go_id go = gid) (vd_groupOrders d) = Some g \<Longrightarrow> uid \<in> set (go_participants g)) \<Longrightarrow>
   joinGroupOrder_v2 pf uf d gid q db = db"
  by (simp add: joinGroupOrder_v2_def split: option.splits)

lemma join_v2_no_user: "vd_user d = None \<Longrightarrow> joinGroupOrder_v2 pf uf d gid q db = db"
  by (simp add: joinGroupOrder_v2_def)

lemma join_v2_not_listed:
  "find (\<lambda>go. go_id go = gid) (vd_groupOrders d) = None \<Longrightarrow> joinGroupOrder_v2 pf uf d gid q db = db"
  by (simp add: joinGroupOrder_v2_def split: option.splits)

lemma fetch_user [simp]: "vd_user (fetchGroupOrders rf now db d) = vd_user d"
  by (simp add: fetchGroupOrders_def)

lemma fetch_list:
  "vd_groupOrders (fetchGroupOrders False now db d) =
     filter (\<lambda>r. go_status r = ''open'' \<and> now < go_expires_at r) (group_orders_tbl db)"
  by (simp add: fetchGroupOrders_def)

lemma join_v1_again:
  assumes "vd_user d = Some uid"
    and "find (\<lambda>go. go_id go = gid) (vd_groupOrders d) = Some g"
    and "uid \<notin> set (go_participants g)"
  shows "joinGroupOrder_v1 uf2 d gid (joinGroupOrder_v1 False d gid db)
           = joinGroupOrder_v1 False d gid db"
  unfolding join_v1_rows[OF assms] using assms
  by (simp add: joinGroupOrder_v1_def update_where_twice)

lemma join_v1_after_refetch:
  assumes "vd_user d = Some uid"
    and "find (\<lambda>go. go_id go = gid) (vd_groupOrders d) = Some g"
    and "uid \<notin> set (go_participants g)"
  shows "joinGroupOrder_v1 uf2
           (fetchGroupOrders False now (joinGroupOrder_v1 False d gid db) d) gid
           (joinGroupOrder_v1 False d gid db)
         = joinGroupOrder_v1 False d gid db"
proof (rule join_v1_noop)
  show "vd_user (fetchGroupOrders False now (joinGroupOrder_v1 False d gid db) d) = Some uid"
    using assms(1) by simp
next
  fix g'
  assume "find (\<lambda>go. go_id go = gid)
            (vd_groupOrders (fetchGroupOrders False now (joinGroupOrder_v1 False d gid db) d)) = Some g'"
  then have "find (\<lambda>go. go_id go = gid)
       (filter (\<lambda>r. go_status r = ''open'' \<and> now < go_expires_at r)
          (update_where (\<lambda>r. go_id r = gid)
             (\<lambda>r. r\<lparr>go_participants := go_participants g @ [uid],
                     go_total_quantity := go_total_quantity g + 1\<rparr>)
             (group_orders_tbl db))) = Some g'"
    by (simp add: join_v1_rows[OF assms] fetch_list)
  then show "uid \<in> set (go_participants g')"
    by (rule find_updated_member)
qed

lemma join_v1_failed: "joinGroupOrder_v1 True d gid db = db"
  by (simp add: joinGroupOrder_v1_def split: option.splits)

lemma join_v1_again_any:
  "joinGroupOrder_v1 uf2 d gid (joinGroupOrder_v1 False d gid db) =
   joinGroupOrder_v1 False d gid db"
proof (cases "vd_user d")
  case None
  then show ?thesis by (simp add: join_v1_no_user)
next
  case (Some uid)
  show ?thesis
  proof (cases "find (\<lambda>go. go_id go = gid) (vd_groupOrders d)")
    case None
    then show ?thesis by (simp add: join_v1_not_listed)
  next
    case found: (Some g)
    show ?thesis
    proof (cases "uid \<in> set (go_participants g)")
      case True
      have noop: "joinGroupOrder_v1 uf d gid db' = db'" for uf db'
        using Some found True by (simp add: joinGroupOrder_v1_def)
      show ?thesis by (simp add: noop)
    next
      case False
      show ?thesis by (rule join_v1_again[OF Some found False])
    qed
  qed
qed

text \<open>
  When no rows are delivered between the two joins, two joins leave the database as one
  join does: one that is carried out if one of the two is.
\<close>

lemma join_twice_v1_kept:
  "join_twice_v1 None uf1 uf2 d gid db = joinGroupOrder_v1 (uf1 \<and> uf2) d gid db"
proof (cases uf1)
  case True
  then show ?thesis by (simp add: join_twice_v1_def Let_def join_v1_failed)
next
  case False
  then show ?thesis by (simp add: join_twice_v1_def Let_def join_v1_again_any)
qed

text \<open>
  When the first join is carried out and the rows delivered before the second join were
  read after it, the second join finds the vendor among the participants and stops.
\<close>

lemma join_twice_v1_read_after:
  assumes "vd_user d = Some uid"
    and "find (\<lambda>go. go_id go = gid) (vd_groupOrders d) = Some g"
    and "uid \<notin> set (go_participants g)"
  shows "join_twice_v1 (Some (now, joinGroupOrder_v1 False d gid db)) False uf2 d gid db =
         joinGroupOrder_v1 False d gid db"
  by (simp add: join_twice_v1_def Let_def join_v1_after_refetch[OF assms])

lemma join_v2_again_group_orders:
  assumes "vd_user d = Some uid"
    and "find (\<lambda>go. go_id go = gid) (vd_groupOrders d) = Some g"
    and "uid \<notin> set (go_participants g)"
  shows "group_orders_tbl (joinGroupOrder_v2 pf2 uf2 d gid q (joinGroupOrder_v2 False False d gid q db))
           = group_orders_tbl (joinGroupOrder_v2 False False d gid q db)"
  unfolding join_v2_rows[OF assms] using assms
  by (simp add: joinGroupOrder_v2_def Let_def update_where_twice)

lemma join_v2_again_participants:
  assumes "vd_user d = Some uid"
    and "find (\<lambda>go. go_id go = gid) (vd_groupOrders d) = Some g"
    and "uid \<notin> set (go_participants g)"
  shows "group_order_participants_tbl
           (joinGroupOrder_v2 False uf2 d gid q (joinGroupOrder_v2 False False d gid q db))
           = group_order_participants_tbl (joinGroupOrder_v2 False False d gid q db) @
               [\<lparr>gp_group_order_id = gid, gp_vendor_id = uid, gp_quantity = q\<rparr>]"
  unfolding join_v2_rows[OF assms] using assms
  by (simp add: joinGroupOrder_v2_def Let_def)

lemma join_v2_after_refetch:
  assumes "vd_user d = Some uid"
    and "find (\<lambda>go. go_id go = gid) (vd_groupOrders d) = Some g"
    and "uid \<notin> set (go_participants g)"
  shows "joinGroupOrder_v2 pf2 uf2
           (fetchGroupOrders False now (joinGroupOrder_v2 False False d gid q db) d) gid q
           (joinGroupOrder_v2 False False d gid q db)
         = joinGroupOrder_v2 False False d gid q db"
proof (rule join_v2_noop)
  show "vd_user (fetchGroupOrders False now (joinGroupOrder_v2 False False d gid q db) d) = Some uid"
    using assms(1) by simp
next
  fix g'
  assume "find (\<lambda>go. go_id go = gid)
            (vd_groupOrders (fetchGroupOrders False now (joinGroupOrder_v2 False False d gid q db) d))
          = Some g'"
  then have "find (\<lambda>go. go_id go = gid)
       (filter (\<lambda>r. go_status r = ''open'' \<and> now < go_expires_at r)
          (update_where (\<lambda>r. go_id r = gid)
             (\<lambda>r. r\<lparr>go_participants := go_participants g @ [uid],
                     go_total_quantity := go_total_quantity g + q\<rparr>)
             (group_orders_tbl db))) = Some g'"
    by (simp add: join_v2_rows[OF assms] fetch_list)
  then show "uid \<in> set (go_participants g')"
    by (rule find_updated_member)
qed

lemma join_v2_again_any:
  "group_orders_tbl (joinGroupOrder_v2 pf2 uf2 d gid q (joinGroupOrder_v2 False False d gid q db)) =
   group_orders_tbl (joinGroupOrder_v2 False False d gid q db)"
proof (cases "vd_user d")
  case None
  then show ?thesis by (simp add: join_v2_no_user)
next
  case (Some uid)
  show ?thesis
  proof (cases "find (\<lambda>go. go_id go = gid) (vd_groupOrders d)")
    case None
    then show ?thesis by (simp add: join_v2_not_listed)
  next
    case found: (Some g)
    show ?thesis
    proof (cases "uid \<in> set (go_participants g)")
      case True
      have noop: "joinGroupOrder_v2 pf uf d gid q db' = db'" for pf uf db'
        using Some found True by (simp add: joinGroupOrder_v2_def)
      show ?thesis by (simp add: noop)
    next
      case False
      show ?thesis by (rule join_v2_again_group_orders[OF Some found False])
    qed
  qed
qed

lemma join_v2_group_orders_cong:
  "group_orders_tbl db' = group_orders_tbl db \<Longrightarrow>
   group_orders_tbl (joinGroupOrder_v2 pf uf d gid q db') =
   group_orders_tbl (joinGroupOrder_v2 False (pf \<or> uf) d gid q db)"
  by (simp add: joinGroupOrder_v2_def Let_def split: option.splits)

lemma join_v2_ineffective:
  "pf \<or> uf \<Longrightarrow> group_orders_tbl (joinGroupOrder_v2 pf uf d gid q db) = group_orders_tbl db"
  by (auto simp add: joinGroupOrder_v2_def Let_def split: option.splits)

lemma join_twice_v2_kept:
  "group_orders_tbl (join_twice_v2 None pf1 uf1 pf2 uf2 d gid q db) =
   group_orders_tbl (joinGroupOrder_v2 False ((pf1 \<or> uf1) \<and> (pf2 \<or> uf2)) d gid q db)"
proof (cases "pf1 \<or> uf1")
  case True
  have "group_orders_tbl (joinGroupOrder_v2 pf2 uf2 d gid q (joinGroupOrder_v2 pf1 uf1 d gid q db)) =
        group_orders_tbl (joinGroupOrder_v2 False (pf2 \<or> uf2) d gid q db)"
    by (rule join_v2_group_orders_cong) (rule join_v2_ineffective[OF True])
  then show ?thesis
    using True by (simp add: join_twice_v2_def Let_def)
next
  case False
  then have "pf1 = False" "uf1 = False" by simp_all
  then show ?thesis by (simp add: join_twice_v2_def Let_def join_v2_again_any)
qed

lemma join_twice_v2_read_after:
  assumes "vd_user d = Some uid"
    and "find (\<lambda>go. go_id go = gid) (vd_groupOrders d) = Some g"
    and "uid \<notin> set (go_participants g)"
  shows "join_twice_v2 (Some (now, joinGroupOrder_v2 False False d gid q db))
           False False pf2 uf2 d gid q db =
         joinGroupOrder_v2 False False d gid q db"
  by (simp add: join_twice_v2_def Let_def join_v2_after_refetch[OF assms])

lemma find_distinct_id:
  "m \<in> set ms \<Longrightarrow> distinct (map f ms) \<Longrightarrow> find (\<lambda>x. f x = f m) ms = Some m"
  by (induction ms) auto

lemma map_update_where_frame:
  "(\<And>r. h (f r) = h r) \<Longrightarrow> map h (update_where P f rows) = map h rows"
  by (simp add: update_where_def)

lemma join_v1_frame:
  "map (\<lambda>g. (go_id g, go_material_id g, go_current_price g, go_min_quantity g,
              go_expires_at g, go_status g))
     (group_orders_tbl (joinGroupOrder_v1 uf d gid db)) =
   map (\<lambda>g. (go_id g, go_material_id g, go_current_price g, go_min_quantity g,
              go_expires_at g, go_status g)) (group_orders_tbl db)"
  by (simp add: joinGroupOrder_v1_def map_update_where_frame split: option.splits)

lemma join_v2_frame:
  "map (\<lambda>g. (go_id g, go_material_id g, go_current_price g, go_min_quantity g,
              go_expires_at g, go_status g))
     (group_orders_tbl (joinGroupOrder_v2 pf uf d gid q db)) =
   map (\<lambda>g. (go_id g, go_material_id g, go_current_price g, go_min_quantity g,
              go_expires_at g, go_status g)) (group_orders_tbl db)"
  by (simp add: joinGroupOrder_v2_def Let_def map_update_where_frame split: option.splits)

lemma join_v1_orders: "orders_tbl (joinGroupOrder_v1 uf d gid db) = orders_tbl db"
  by (simp add: joinGroupOrder_v1_def split: option.splits)

lemma join_v2_orders: "orders_tbl (joinGroupOrder_v2 pf uf d gid q db) = orders_tbl db"
  by (simp add: joinGroupOrder_v2_def Let_def split: option.splits)

lemma join_step_frame:
  "map (\<lambda>g. (go_id g, go_material_id g, go_current_price g, go_min_quantity g,
              go_expires_at g, go_status g))
     (group_orders_tbl (join_step e db)) =
   map (\<lambda>g. (go_id g, go_material_id g, go_current_price g, go_min_quantity g,
              go_expires_at g, go_status g)) (group_orders_tbl db)"
  by (cases e) (simp_all only: join_step.simps join_v1_frame join_v2_frame)

lemma join_step_orders: "orders_tbl (join_step e db) = orders_tbl db"
  by (cases e) (simp_all only: join_step.simps join_v1_orders join_v2_orders)

lemma run_joins_frame:
  "map (\<lambda>g. (go_id g, go_material_id g, go_current_price g, go_min_quantity g,
              go_expires_at g, go_status g))
     (group_orders_tbl (run_joins es db)) =
   map (\<lambda>g. (go_id g, go_material_id g, go_current_price g, go_min_quantity g,
              go_expires_at g, go_status g)) (group_orders_tbl db)"
  by (induction es arbitrary: db) (simp_all add: join_step_frame)

lemma run_joins_orders: "orders_tbl (run_joins es db) = orders_tbl db"
  by (induction es arbitrary: db) (simp_all add: join_step_orders)

section \<open>C1: the price of a group order and the threshold\<close>

text \<open>
  C1 says that the participants of a group order pay the material's regular price while
  \<open>total_quantity\<close> is below \<open>min_quantity\<close> and the discounted price from then on
  (\<open>spec_unit_price\<close>). The only price a group order carries in the code is the column
  \<open>current_price\<close>, which the dashboard shows as the price of the group order. The group
  order that \<open>createGroupOrder\<close> inserts for a material of price 100 with the form left
  at its defaults has \<open>total_quantity\<close> 1, below \<open>min_quantity\<close> 100, and already carries
  the discounted price 90, where C1 asks for 100.
\<close>

theorem C1_counterexample:
  "(let g = last (group_orders_tbl
                   (createGroupOrder utc_zone (accepted ''g2'' ''open'') (Some ''v1'')
                      (Some flour) (material_effect (Some flour) (initial_formData None))
                      0 shop))
    in go_total_quantity g = 1 \<and> go_min_quantity g = 100 \<and>
       go_total_quantity g < go_min_quantity g \<and>
       go_current_price g = 90 \<and>
       spec_unit_price flour 90 g = 100 \<and>
       go_current_price g \<noteq> spec_unit_price flour 90 g)"
  by (simp add: createGroupOrder_def insert_group_order_def accepted_def flour_def
        material_effect_def initial_formData_def setDate_plus_def utc_zone_def shop_def
        spec_unit_price_def)

text \<open>
  C1 as the code has it: a group order carries the discounted price chosen in the form
  from its creation on, with \<open>total_quantity\<close> 1 and whatever \<open>min_quantity\<close> is (a group
  order is created when the insert is carried out and the expiry date is a valid date);
  no run of joins (either revision, any vendor, any outcome of the requests) changes
  the \<open>current_price\<close>, \<open>min_quantity\<close> or \<open>status\<close> of any group order, and no join
  creates an order row: nothing compares \<open>total_quantity\<close> with \<open>min_quantity\<close>.
\<close>

theorem C1_price_fixed_at_creation:
  "(\<not> fails reply \<and> setDate_plus z now (expiryDays formData) \<noteq> None \<longrightarrow>
      (\<exists>g. group_orders_tbl (createGroupOrder z reply (Some uid) (Some m) formData now db) =
              group_orders_tbl db @ [g] \<and>
            go_current_price g = discountedPrice formData \<and>
            go_min_quantity g = minQuantity formData \<and>
            go_total_quantity g = 1)) \<and>
   map (\<lambda>g. (go_id g, go_material_id g, go_current_price g, go_min_quantity g,
              go_expires_at g, go_status g))
     (group_orders_tbl (run_joins es db)) =
   map (\<lambda>g. (go_id g, go_material_id g, go_current_price g, go_min_quantity g,
              go_expires_at g, go_status g)) (group_orders_tbl db) \<and>
   orders_tbl (run_joins es db) = orders_tbl db"
proof -
  have "\<not> fails reply \<and> setDate_plus z now (expiryDays formData) \<noteq> None \<longrightarrow>
      (\<exists>g. group_orders_tbl (createGroupOrder z reply (Some uid) (Some m) formData now db) =
              group_orders_tbl db @ [g] \<and>
            go_current_price g = discountedPrice formData \<and>
            go_min_quantity g = minQuantity formData \<and>
            go_total_quantity g = 1)"
    by (auto simp add: createGroupOrder_def insert_group_order_def)
  then show ?thesis
    by (simp only: run_joins_frame run_joins_orders simp_thms)
qed

text \<open>
  An instance of C1: a group order for 100 units at 90 is created on the example shop,
  and two vendors then join the existing group order \<open>g1\<close>, one in each revision.
\<close>

theorem C1_price_fixed_at_creation_witness:
  "\<not> fails (accepted ''g2'' ''open'') \<and>
   setDate_plus utc_zone 0 (expiryDays (initial_formData (Some flour))) = Some 604800000 \<and>
   (\<exists>g. group_orders_tbl
          (createGroupOrder utc_zone (accepted ''g2'' ''open'') (Some ''v1'') (Some flour)
             (initial_formData (Some flour)) 0 shop) = group_orders_tbl shop @ [g] \<and>
        go_current_price g = 90 \<and> go_min_quantity g = 100 \<and> go_total_quantity g = 1) \<and>
   map (\<lambda>g. (go_id g, go_material_id g, go_current_price g, go_min_quantity g,
              go_expires_at g, go_status g))
     (group_orders_tbl
        (run_joins
           [JoinV1 False (fetchGroupOrders False 10 shop (vendor_at_mount ''v1'')) ''g1'',
            JoinV2 False False (fetchGroupOrders False 10 shop (vendor_at_mount ''v2''))
              ''g1'' 5]
           shop)) = [(''g1'', ''m1'', 90, 100, 20, ''open'')]"
proof -
  have h: "\<not> fails (accepted ''g2'' ''open'')" by (simp add: accepted_def)
  have e: "setDate_plus utc_zone 0 (expiryDays (initial_formData (Some flour))) = Some 604800000"
    by (simp add: setDate_plus_def utc_zone_def initial_formData_def)
  from C1_price_fixed_at_creation[where reply = "accepted ''g2'' ''open''" and uid = "''v1''"
      and z = utc_zone
      and m = flour and formData = "initial_formData (Some flour)" and now = 0 and db = shop
      and es = "[JoinV1 False (fetchGroupOrders False 10 shop (vendor_at_mount ''v1'')) ''g1'',
            JoinV2 False False (fetchGroupOrders False 10 shop (vendor_at_mount ''v2''))
              ''g1'' 5]"]
  show ?thesis using h e
    by (simp add: initial_formData_def flour_def shop_def pool_def)
qed

section \<open>C2: what a join writes\<close>

text \<open>
  C2 says that a join by a vendor who is not among the participants of an open group
  order adds \<open>q\<close> to the stored \<open>total_quantity\<close> and appends the vendor to the stored
  participants (\<open>spec_join_row\<close>). The code computes both columns from the copy the
  dashboard fetched. Two vendors fetch the example shop at the same time; \<open>v1\<close> joins
  \<open>g1\<close>, which then has participants \<open>v0, v1\<close> and quantity 2 and is still open; \<open>v2\<close>, not
  among them, joins from the copy fetched earlier: the row ends with participants
  \<open>v0, v2\<close> and quantity 2, not \<open>v0, v1, v2\<close> and 3.
\<close>

theorem C2_counterexample:
  "(let dB = fetchGroupOrders False 10 shop (vendor_at_mount ''v1'');
        dC = fetchGroupOrders False 10 shop (vendor_at_mount ''v2'');
        db1 = joinGroupOrder_v1 False dB ''g1'' shop;
        db2 = joinGroupOrder_v1 False dC ''g1'' db1
    in group_orders_tbl db1 =
         [pool\<lparr>go_participants := [''v0'', ''v1''], go_total_quantity := 2\<rparr>] \<and>
       group_orders_tbl db2 =
         [pool\<lparr>go_participants := [''v0'', ''v2''], go_total_quantity := 2\<rparr>] \<and>
       \<not> spec_join_row ''v2'' 1 (hd (group_orders_tbl db1)) (hd (group_orders_tbl db2)))"
  by (simp add: Let_def fetchGroupOrders_def shop_def vendor_at_mount_def pool_def
        joinGroupOrder_v1_def update_where_def spec_join_row_def)

text \<open>
  C2 as the code has it. Let \<open>g\<close> be the copy of group order \<open>gid\<close> in the list the
  dashboard fetched, and let the vendor not be among the participants of \<open>g\<close>. A join
  with quantity \<open>q\<close> whose requests are carried out keeps the number and order of the
  rows of \<open>group_orders\<close>, leaves every row with another id as it is, and in a row with
  id \<open>gid\<close> sets \<open>participants\<close> to those of \<open>g\<close> followed by the vendor and
  \<open>total_quantity\<close> to that of \<open>g\<close> plus \<open>q\<close>, all other columns unchanged; where the
  stored row still has the participants and quantity of \<open>g\<close>, this is the effect C2
  describes. The tables \<open>materials\<close>, \<open>orders\<close> and \<open>cart_items\<close> are unchanged. The first
  revision does the same with \<open>q = 1\<close> and does not write \<open>group_order_participants\<close>.
\<close>

theorem C2_join_writes_fetched_copy:
  assumes "vd_user d = Some uid"
    and "find (\<lambda>go. go_id go = gid) (vd_groupOrders d) = Some g"
    and "uid \<notin> set (go_participants g)"
  shows "(let tbl = group_orders_tbl db;
              db' = joinGroupOrder_v2 False False d gid q db;
              tbl' = group_orders_tbl db'
          in length tbl' = length tbl \<and>
             (\<forall>i<length tbl.
                (go_id (tbl ! i) \<noteq> gid \<longrightarrow> tbl' ! i = tbl ! i) \<and>
                (go_id (tbl ! i) = gid \<longrightarrow>
                   tbl' ! i = (tbl ! i)\<lparr>go_participants := go_participants g @ [uid],
                                        go_total_quantity := go_total_quantity g + q\<rparr> \<and>
                   (go_participants (tbl ! i) = go_participants g \<and>
                    go_total_quantity (tbl ! i) = go_total_quantity g \<longrightarrow>
                      spec_join_row uid q (tbl ! i) (tbl' ! i)))) \<and>
             materials_tbl db' = materials_tbl db \<and> orders_tbl db' = orders_tbl db \<and>
             cart_items_tbl db' = cart_items_tbl db) \<and>
         joinGroupOrder_v1 False d gid db =
           (joinGroupOrder_v2 False False d gid 1 db)
             \<lparr>group_order_participants_tbl := group_order_participants_tbl db\<rparr>"
  unfolding join_v2_rows[OF assms] join_v1_rows[OF assms] Let_def
  by (simp add: update_where_nth spec_join_row_def)

text \<open>An instance of C2: vendor \<open>v1\<close> joins \<open>g1\<close> with quantity 3 right after fetching.\<close>

theorem C2_join_writes_fetched_copy_witness:
  "vd_user (fetchGroupOrders False 10 shop (vendor_at_mount ''v1'')) = Some ''v1'' \<and>
   find (\<lambda>go. go_id go = ''g1'')
     (vd_groupOrders (fetchGroupOrders False 10 shop (vendor_at_mount ''v1''))) = Some pool \<and>
   ''v1'' \<notin> set (go_participants pool) \<and>
   group_orders_tbl
     (joinGroupOrder_v2 False False (fetchGroupOrders False 10 shop (vendor_at_mount ''v1''))
        ''g1'' 3 shop) =
     [pool\<lparr>go_participants := [''v0'', ''v1''], go_total_quantity := 4\<rparr>] \<and>
   spec_join_row ''v1'' 3 pool
     (group_orders_tbl
        (joinGroupOrder_v2 False False (fetchGroupOrders False 10 shop (vendor_at_mount ''v1''))
           ''g1'' 3 shop) ! 0)"
proof -
  let ?d = "fetchGroupOrders False 10 shop (vendor_at_mount ''v1'')"
  have u: "vd_user ?d = Some ''v1''"
    by (simp add: fetchGroupOrders_def vendor_at_mount_def)
  have f: "find (\<lambda>go. go_id go = ''g1'') (vd_groupOrders ?d) = Some pool"
    by (simp add: fetchGroupOrders_def shop_def vendor_at_mount_def pool_def)
  have n: "''v1'' \<notin> set (go_participants pool)"
    by (simp add: pool_def)
  from C2_join_writes_fetched_copy[OF u f n, of shop 3] u f n show ?thesis
    by (simp add: Let_def joinGroupOrder_v2_def fetchGroupOrders_def shop_def
          vendor_at_mount_def pool_def update_where_def spec_join_row_def)
qed

section \<open>C3: joining twice\<close>

text \<open>
  The trace behind C3. Vendor \<open>v1\<close> fetched the list when \<open>g1\<close> had the participant \<open>v0\<close>
  and quantity 1; since then \<open>v2\<close> has joined, and the table holds \<open>v0, v2\<close> and 2. A
  \<open>fetchGroupOrders\<close> of \<open>v1\<close> has read that table but its rows have not arrived when
  \<open>v1\<close> joins: the join writes \<open>v0, v1\<close> and 2 from the list. The rows arrive, the list
  shows \<open>v0, v2\<close>, and \<open>v1\<close> joins again: the table ends with \<open>v0, v2, v1\<close> and 3. One
  join alone leaves \<open>v0, v1\<close> and 2.
\<close>

lemma join_twice_example_v1:
  "group_orders_tbl
     (join_twice_v1 (Some (11, shop_after_v2)) False False
        (fetchGroupOrders False 10 shop (vendor_at_mount ''v1'')) ''g1'' shop_after_v2) =
     [pool\<lparr>go_participants := [''v0'', ''v2'', ''v1''], go_total_quantity := 3\<rparr>] \<and>
   group_orders_tbl
     (joinGroupOrder_v1 False
        (fetchGroupOrders False 10 shop (vendor_at_mount ''v1'')) ''g1'' shop_after_v2) =
     [pool\<lparr>go_participants := [''v0'', ''v1''], go_total_quantity := 2\<rparr>]"
  by (simp add: join_twice_v1_def Let_def joinGroupOrder_v1_def fetchGroupOrders_def
        shop_after_v2_def shop_def vendor_at_mount_def pool_def update_where_def)

lemma join_twice_example_v2:
  "group_orders_tbl
     (join_twice_v2 (Some (11, shop_after_v2)) False False False False
        (fetchGroupOrders False 10 shop (vendor_at_mount ''v1'')) ''g1'' 1 shop_after_v2) =
     [pool\<lparr>go_participants := [''v0'', ''v2'', ''v1''], go_total_quantity := 3\<rparr>] \<and>
   group_orders_tbl
     (joinGroupOrder_v2 False False
        (fetchGroupOrders False 10 shop (vendor_at_mount ''v1'')) ''g1'' 1 shop_after_v2) =
     [pool\<lparr>go_participants := [''v0'', ''v1''], go_total_quantity := 2\<rparr>]"
  by (simp add: join_twice_v2_def Let_def joinGroupOrder_v2_def fetchGroupOrders_def
        shop_after_v2_def shop_def vendor_at_mount_def pool_def update_where_def)

text \<open>
  C3: the join flow is not idempotent. In both revisions there are a database, a vendor
  with a fetched list and a group order such that two joins in a row, all requests
  carried out and the rows of a fetch that read the table before the first join
  delivered in between, leave other participants and another \<open>total_quantity\<close> than
  one join. (The lemmas \<open>join_twice_v1_kept\<close>, \<open>join_twice_v1_read_after\<close> and their
  counterparts for the second revision give the cases in which the second join changes
  nothing on \<open>group_orders\<close>: no rows delivered in between, or rows read after a first
  join that was carried out.)
\<close>

theorem C3_join_twice_differs:
  "(\<exists>db d gid now.
      vd_user d = Some ''v1'' \<and>
      map (\<lambda>g. (go_participants g, go_total_quantity g))
        (group_orders_tbl (join_twice_v1 (Some (now, db)) False False d gid db)) \<noteq>
      map (\<lambda>g. (go_participants g, go_total_quantity g))
        (group_orders_tbl (joinGroupOrder_v1 False d gid db))) \<and>
   (\<exists>db d gid now q.
      vd_user d = Some ''v1'' \<and>
      map (\<lambda>g. (go_participants g, go_total_quantity g))
        (group_orders_tbl (join_twice_v2 (Some (now, db)) False False False False d gid q db)) \<noteq>
      map (\<lambda>g. (go_participants g, go_total_quantity g))
        (group_orders_tbl (joinGroupOrder_v2 False False d gid q db)))"
proof (intro conjI)
  let ?d = "fetchGroupOrders False 10 shop (vendor_at_mount ''v1'')"
  have u: "vd_user ?d = Some ''v1''"
    by (simp add: fetchGroupOrders_def vendor_at_mount_def)
  have "map (\<lambda>g. (go_participants g, go_total_quantity g))
          (group_orders_tbl
             (join_twice_v1 (Some (11, shop_after_v2)) False False ?d ''g1'' shop_after_v2)) \<noteq>
        map (\<lambda>g. (go_participants g, go_total_quantity g))
          (group_orders_tbl (joinGroupOrder_v1 False ?d ''g1'' shop_after_v2))"
    using join_twice_example_v1 by (simp add: pool_def)
  with u show "\<exists>db d gid now.
      vd_user d = Some ''v1'' \<and>
      map (\<lambda>g. (go_participants g, go_total_quantity g))
        (group_orders_tbl (join_twice_v1 (Some (now, db)) False False d gid db)) \<noteq>
      map (\<lambda>g. (go_participants g, go_total_quantity g))
        (group_orders_tbl (joinGroupOrder_v1 False d gid db))"
    by blast
  have "map (\<lambda>g. (go_participants g, go_total_quantity g))
          (group_orders_tbl
             (join_twice_v2 (Some (11, shop_after_v2)) False False False False ?d ''g1'' 1
                shop_after_v2)) \<noteq>
        map (\<lambda>g. (go_participants g, go_total_quantity g))
          (group_orders_tbl (joinGroupOrder_v2 False False ?d ''g1'' 1 shop_after_v2))"
    using join_twice_example_v2 by (simp add: pool_def)
  with u show "\<exists>db d gid now q.
      vd_user d = Some ''v1'' \<and>
      map (\<lambda>g. (go_participants g, go_total_quantity g))
        (group_orders_tbl (join_twice_v2 (Some (now, db)) False False False False d gid q db)) \<noteq>
      map (\<lambda>g. (go_participants g, go_total_quantity g))
        (group_orders_tbl (joinGroupOrder_v2 False False d gid q db))"
    by blast
qed

section \<open>C4: forming a group order\<close>

text \<open>
  Across a change of the local clock a calendar day is not 86400000 ms: where the clock
  is set back by an hour in between, seven days after time 0 is one hour more than
  seven times 86400000 ms.
\<close>

lemma setDate_plus_across_clock_change:
  "setDate_plus autumn_zone 0 7 = Some (7 * 86400000 + 3600000)"
  by (simp add: setDate_plus_def autumn_zone_def)

text \<open>
  C4: when a logged-in user confirms the form for a material, the expiry date \<open>e\<close> is a
  valid date and the insert is carried out, exactly one row is added to \<open>group_orders\<close>
  and nothing else changes; its participants are the creator alone, its
  \<open>total_quantity\<close> is 1, its \<open>current_price\<close> is the discounted price of the form, its
  \<open>min_quantity\<close> the form's, and its \<open>expires_at\<close> is \<open>e\<close>. In local time \<open>e\<close> lies
  the form's number of days of 86400000 ms after the creation time, and where the local
  offset at \<open>e\<close> is the one at the creation time, \<open>e\<close> itself does. With the form as the
  modal sets it up for the material, the discounted price is nine tenths of the
  material's price and the number of days is 7.
\<close>

theorem C4_createGroupOrder:
  "\<not> fails reply \<Longrightarrow> setDate_plus z now (expiryDays formData) = Some e \<Longrightarrow>
   (\<exists>g. createGroupOrder z reply (Some uid) (Some m) formData now db =
           db\<lparr>group_orders_tbl := group_orders_tbl db @ [g]\<rparr> \<and>
         go_material_id g = m_id m \<and>
         go_participants g = [uid] \<and>
         go_total_quantity g = 1 \<and>
         go_current_price g = discountedPrice formData \<and>
         go_min_quantity g = minQuantity formData \<and>
         go_expires_at g = e) \<and>
   e + tza_local z (now + tza_utc z now + expiryDays formData * 86400000) =
     now + tza_utc z now + expiryDays formData * 86400000 \<and>
   (tza_local z (now + tza_utc z now + expiryDays formData * 86400000) = tza_utc z now \<longrightarrow>
      e = now + expiryDays formData * 86400000) \<and>
   discountedPrice (material_effect (Some m) (initial_formData m0)) = m_price m * (9 / 10) \<and>
   expiryDays (material_effect (Some m) (initial_formData m0)) = 7"
proof -
  assume r: "\<not> fails reply" and s: "setDate_plus z now (expiryDays formData) = Some e"
  let ?g = "\<lparr>go_id = new_id reply, go_material_id = m_id m, go_total_quantity = 1,
             go_current_price = discountedPrice formData,
             go_min_quantity = minQuantity formData, go_participants = [uid],
             go_expires_at = e, go_status = default_status reply\<rparr>"
  have c: "createGroupOrder z reply (Some uid) (Some m) formData now db =
           db\<lparr>group_orders_tbl := group_orders_tbl db @ [?g]\<rparr>"
    using r s by (simp add: createGroupOrder_def insert_group_order_def)
  have e: "e = now + tza_utc z now + expiryDays formData * 86400000 -
               tza_local z (now + tza_utc z now + expiryDays formData * 86400000)"
    using s by (simp add: setDate_plus_def Let_def split: if_splits)
  have x: "\<exists>g. createGroupOrder z reply (Some uid) (Some m) formData now db =
           db\<lparr>group_orders_tbl := group_orders_tbl db @ [g]\<rparr> \<and>
         go_material_id g = m_id m \<and>
         go_participants g = [uid] \<and>
         go_total_quantity g = 1 \<and>
         go_current_price g = discountedPrice formData \<and>
         go_min_quantity g = minQuantity formData \<and>
         go_expires_at g = e"
    by (rule exI[of _ ?g]) (simp add: c)
  show ?thesis
    using x e by (simp add: material_effect_def initial_formData_def)
qed

text \<open>
  When the expiry date is not a valid date, nothing is inserted.
\<close>

lemma createGroupOrder_invalid_date:
  "setDate_plus z now (expiryDays formData) = None \<Longrightarrow>
   createGroupOrder z reply user material formData now db = db"
  by (simp add: createGroupOrder_def split: option.splits)

text \<open>
  An instance of C4: vendor \<open>v1\<close> forms a group order for flour (price 100) at time
  1000 with the form as the modal sets it up, in a browser on UTC.
\<close>

theorem C4_createGroupOrder_witness:
  "\<not> fails (accepted ''g2'' ''open'') \<and>
   setDate_plus utc_zone 1000
     (expiryDays (material_effect (Some flour) (initial_formData None))) = Some 604801000 \<and>
   tza_local utc_zone (1000 + tza_utc utc_zone 1000 + 7 * 86400000) = tza_utc utc_zone 1000 \<and>
   group_orders_tbl
     (createGroupOrder utc_zone (accepted ''g2'' ''open'') (Some ''v1'') (Some flour)
        (material_effect (Some flour) (initial_formData None)) 1000 shop) =
   [pool,
    \<lparr>go_id = ''g2'', go_material_id = ''m1'', go_total_quantity = 1, go_current_price = 90,
     go_min_quantity = 100, go_participants = [''v1''], go_expires_at = 604801000,
     go_status = ''open''\<rparr>]"
proof -
  have h: "\<not> fails (accepted ''g2'' ''open'')" by (simp add: accepted_def)
  have e: "setDate_plus utc_zone 1000
     (expiryDays (material_effect (Some flour) (initial_formData None))) = Some 604801000"
    by (simp add: setDate_plus_def utc_zone_def material_effect_def initial_formData_def)
  have o: "tza_local utc_zone (1000 + tza_utc utc_zone 1000 + 7 * 86400000) =
           tza_utc utc_zone 1000"
    by (simp add: utc_zone_def)
  from C4_createGroupOrder[OF h e, where uid = "''v1''" and m = flour and db = shop
        and ?m0.0 = None]
  show ?thesis using h e o
    by (auto simp add: shop_def flour_def accepted_def material_effect_def
          initial_formData_def createGroupOrder_def insert_group_order_def)
qed

section \<open>C5: placing an individual order\<close>

text \<open>
  C5: a logged-in vendor with a loaded profile orders quantity \<open>q\<close> of a material \<open>m\<close>
  of the fetched catalog (whose ids are distinct), and the insert is carried out. In the
  first revision \<open>placeIndividualOrder\<close> adds exactly one row to \<open>orders\<close> and changes
  nothing else; in the second it returns the closure \<open>confirmOrder\<close>, and running that
  closure adds exactly one row to \<open>orders\<close>. In both the row has the vendor's id, the
  supplier of \<open>m\<close>, the id of \<open>m\<close>, quantity \<open>q\<close>, total price \<open>m.price * q\<close> and type
  \<open>individual\<close>.
\<close>

theorem C5_placeIndividualOrder:
  assumes "vd_user d = Some uid" and "vd_profile d = Some pr"
    and "m \<in> set (vd_materials d)" and "distinct (map m_id (vd_materials d))"
    and "\<not> fails reply"
  shows "(\<exists>row. placeIndividualOrder_v1 reply d (m_id m) q db =
                  db\<lparr>orders_tbl := orders_tbl db @ [row]\<rparr> \<and>
               o_vendor_id row = uid \<and> o_supplier_id row = m_supplier_id m \<and>
               o_material_id row = m_id m \<and> o_quantity row = q \<and>
               o_total_price row = m_price m * of_int q \<and> o_type row = ''individual'') \<and>
         (\<exists>d1 p row. placeIndividualOrder_v2 summary_of d (m_id m) q = (d1, Some p) \<and>
               orders_tbl (fst (confirmOrder reply log_fails p d1 db)) = orders_tbl db @ [row] \<and>
               o_vendor_id row = uid \<and> o_supplier_id row = m_supplier_id m \<and>
               o_material_id row = m_id m \<and> o_quantity row = q \<and>
               o_total_price row = m_price m * of_int q \<and> o_type row = ''individual'')"
proof -
  have f: "find (\<lambda>x. m_id x = m_id m) (vd_materials d) = Some m"
    using assms(3,4) by (rule find_distinct_id)
  let ?row = "\<lparr>o_id = new_id reply, o_vendor_id = uid,
              o_supplier_id = m_supplier_id m, o_material_id = m_id m,
              o_quantity = q, o_total_price = m_price m * of_int q,
              o_type = ''individual'', o_status = default_status reply,
              o_created_at = server_time reply\<rparr>"
  have v1: "placeIndividualOrder_v1 reply d (m_id m) q db =
              db\<lparr>orders_tbl := orders_tbl db @ [?row]\<rparr>"
    using assms(1,2,5) f by (simp add: placeIndividualOrder_v1_def insert_order_def)
  obtain d1 p where p: "placeIndividualOrder_v2 summary_of d (m_id m) q = (d1, Some p)"
    and pu: "po_user p = uid" and pm: "po_material p = m" and pi: "po_materialId p = m_id m"
    and pq: "po_quantity p = q"
    using assms(1,2) f by (simp add: placeIndividualOrder_v2_def)
  have v2: "orders_tbl (fst (confirmOrder reply log_fails p d1 db)) = orders_tbl db @ [?row]"
    using assms(5) pu pm pi pq by (simp add: confirmOrder_def insert_order_def Let_def)
  show ?thesis
    apply (intro conjI)
     apply (rule exI[of _ ?row])
     apply (simp add: v1)
    apply (rule exI[of _ d1], rule exI[of _ p], rule exI[of _ ?row])
    apply (simp add: p v2)
    done
qed

text \<open>
  The dialog of the second revision confirms through \<open>confirmIndividualOrder\<close>, which
  orders one unit of the selected material.
\<close>

lemma confirmIndividualOrder_inserts_one:
  assumes "vd_user d = Some uid" and "vd_profile d = Some pr"
    and "vd_selectedMaterial d = Some m"
    and "m \<in> set (vd_materials d)" and "distinct (map m_id (vd_materials d))"
    and "\<not> fails reply"
  shows "orders_tbl (fst (confirmIndividualOrder summary_of reply log_fails d db)) =
           orders_tbl db @
             [\<lparr>o_id = new_id reply, o_vendor_id = uid, o_supplier_id = m_supplier_id m,
               o_material_id = m_id m, o_quantity = 1, o_total_price = m_price m,
               o_type = ''individual'', o_status = default_status reply,
               o_created_at = server_time reply\<rparr>]"
proof -
  have f: "find (\<lambda>x. m_id x = m_id m) (vd_materials d) = Some m"
    using assms(4,5) by (rule find_distinct_id)
  show ?thesis
    using assms(1,2,3,6) f
    by (simp add: confirmIndividualOrder_def placeIndividualOrder_v2_def confirmOrder_def
          insert_order_def Let_def)
qed

text \<open>
  An instance of C5: vendor \<open>v1\<close> has fetched the catalog of the example shop and
  orders 3 kg of rice (price 40, supplier \<open>s2\<close>).
\<close>

theorem C5_placeIndividualOrder_witness:
  "vd_user (vendor_fetchMaterials False shop (vendor_at_mount ''v1'')) = Some ''v1'' \<and>
   vd_profile (vendor_fetchMaterials False shop (vendor_at_mount ''v1'')) = Some ''vendor'' \<and>
   rice \<in> set (vd_materials (vendor_fetchMaterials False shop (vendor_at_mount ''v1''))) \<and>
   distinct (map m_id (vd_materials (vendor_fetchMaterials False shop (vendor_at_mount ''v1'')))) \<and>
   \<not> fails (accepted ''o3'' ''pending'') \<and>
   orders_tbl
     (placeIndividualOrder_v1 (accepted ''o3'' ''pending'')
        (vendor_fetchMaterials False shop (vendor_at_mount ''v1'')) ''m2'' 3 shop) =
   [order1, order2,
    \<lparr>o_id = ''o3'', o_vendor_id = ''v1'', o_supplier_id = ''s2'', o_material_id = ''m2'',
     o_quantity = 3, o_total_price = 120, o_type = ''individual'', o_status = ''pending'',
     o_created_at = 10\<rparr>]"
proof -
  let ?d = "vendor_fetchMaterials False shop (vendor_at_mount ''v1'')"
  have u: "vd_user ?d = Some ''v1''" and p: "vd_profile ?d = Some ''vendor''"
    by (simp_all add: vendor_fetchMaterials_def vendor_at_mount_def)
  have m: "rice \<in> set (vd_materials ?d)" and dst: "distinct (map m_id (vd_materials ?d))"
    by (simp_all add: vendor_fetchMaterials_def vendor_at_mount_def shop_def rice_def flour_def)
  have r: "\<not> fails (accepted ''o3'' ''pending'')" by (simp add: accepted_def)
  from C5_placeIndividualOrder[OF u p m dst r, where q = 3 and db = shop
        and summary_of = "\<lambda>_ _. []" and log_fails = False]
  show ?thesis using u p m dst r
    by (simp add: placeIndividualOrder_v1_def insert_order_def vendor_fetchMaterials_def
          vendor_at_mount_def rice_def flour_def accepted_def shop_def)
qed

section \<open>C6: what the supplier dashboard fetches\<close>

text \<open>
  C6: for a logged-in supplier whose two requests are carried out, the materials and the
  orders on the dashboard are exactly the rows of the two tables whose \<open>supplier_id\<close> is
  the supplier's user id, each as often as the table has it: no row of another supplier
  is among them and no row of this supplier is missing.
\<close>

theorem C6_supplier_fetch_exact:
  "sd_user d = Some uid \<Longrightarrow>
   (let d' = supplier_fetchOrders False db2 (supplier_fetchMaterials False db1 d)
    in mset (sd_materials d') =
         filter_mset (\<lambda>r. m_supplier_id r = uid) (mset (materials_tbl db1)) \<and>
       mset (sd_orders d') =
         filter_mset (\<lambda>r. o_supplier_id r = uid) (mset (orders_tbl db2)) \<and>
       (\<forall>r. r \<in> set (sd_materials d') \<longleftrightarrow>
              r \<in> set (materials_tbl db1) \<and> m_supplier_id r = uid) \<and>
       (\<forall>r. r \<in> set (sd_orders d') \<longleftrightarrow>
              r \<in> set (orders_tbl db2) \<and> o_supplier_id r = uid))"
  by (auto simp add: supplier_fetchMaterials_def supplier_fetchOrders_def Let_def)

text \<open>
  An instance of C6: supplier \<open>s1\<close> of the example shop sees the flour and the order
  for it, and neither the rice nor its order, which belong to \<open>s2\<close>.
\<close>

theorem C6_supplier_fetch_exact_witness:
  "sd_user (supplier_at_mount ''s1'') = Some ''s1'' \<and>
   sd_materials (supplier_fetchOrders False shop
                   (supplier_fetchMaterials False shop (supplier_at_mount ''s1''))) = [flour] \<and>
   sd_orders (supplier_fetchOrders False shop
                (supplier_fetchMaterials False shop (supplier_at_mount ''s1''))) = [order1]"
proof -
  have u: "sd_user (supplier_at_mount ''s1'') = Some ''s1''"
    by (simp add: supplier_at_mount_def)
  from C6_supplier_fetch_exact[OF u, of shop shop]
  show ?thesis using u
    by (simp add: supplier_fetchMaterials_def supplier_fetchOrders_def supplier_at_mount_def
          shop_def flour_def rice_def order1_def order2_def)
qed

section \<open>C7: the volatility figures\<close>

lemma simulate_cong:
  "(\<forall>k<2 * length ms. rnd1 (k0 + k) = rnd2 (k0 + k)) \<Longrightarrow>
   simulate rnd1 k0 ms = simulate rnd2 k0 ms"
proof (induction ms arbitrary: k0)
  case Nil
  then show ?case by simp
next
  case (Cons m ms)
  have a: "rnd1 k0 = rnd2 k0" using Cons.prems[rule_format, of 0] by simp
  have b: "rnd1 (Suc k0) = rnd2 (Suc k0)" using Cons.prems[rule_format, of 1] by simp
  have c: "\<forall>k<2 * length ms. rnd1 (Suc (Suc k0) + k) = rnd2 (Suc (Suc k0) + k)"
  proof (intro allI impI)
    fix k assume "k < 2 * length ms"
    then have "Suc (Suc k) < 2 * length (m # ms)" by simp
    from Cons.prems[rule_format, OF this] show "rnd1 (Suc (Suc k0) + k) = rnd2 (Suc (Suc k0) + k)"
      by simp
  qed
  show ?case by (simp add: a b Cons.IH[OF c])
qed

lemma toFixed2_bounds:
  assumes "0 \<le> x" and "x < 20"
  shows "0 \<le> toFixed2 x \<and> toFixed2 x \<le> 20"
proof -
  have "0 \<le> \<lfloor>x * 100 + 1 / 2\<rfloor>" using assms(1) by simp
  moreover have "\<lfloor>x * 100 + 1 / 2\<rfloor> \<le> 2000"
  proof -
    have "x * 100 + 1 / 2 < 2001" using assms(2) by simp
    then have "\<lfloor>x * 100 + 1 / 2\<rfloor> < 2001" by (simp add: floor_less_iff)
    then show ?thesis by simp
  qed
  ultimately show ?thesis by (simp add: toFixed2_def)
qed

lemma price_changes_bounds:
  assumes "0 \<le> (r::real)" and "r < 1"
  shows "1 \<le> \<lfloor>r * 10\<rfloor> + 1 \<and> \<lfloor>r * 10\<rfloor> + 1 \<le> 10"
proof -
  have "0 \<le> \<lfloor>r * 10\<rfloor>" using assms(1) by simp
  moreover have "\<lfloor>r * 10\<rfloor> < 10" using assms(2) by (simp add: floor_less_iff)
  ultimately show ?thesis by simp
qed

lemma simulate_bounds:
  "(\<forall>k. 0 \<le> rnd k \<and> rnd k < 1) \<Longrightarrow> v \<in> set (simulate rnd k0 ms) \<Longrightarrow>
   0 \<le> volatility v \<and> volatility v \<le> 20 \<and> 1 \<le> price_changes v \<and> price_changes v \<le> 10"
proof (induction ms arbitrary: k0)
  case Nil
  then show ?case by simp
next
  case (Cons m ms)
  from Cons.prems(2) consider
    "v = \<lparr>material_name = m_name m, volatility = toFixed2 (rnd k0 * 20), avg_price = m_price m,
          price_changes = \<lfloor>rnd (Suc k0) * 10\<rfloor> + 1\<rparr>"
    | "v \<in> set (simulate rnd (Suc (Suc k0)) ms)" by auto
  then show ?case
  proof cases
    case 1
    have "0 \<le> rnd k0 * 20" "rnd k0 * 20 < 20" using Cons.prems(1)[rule_format, of k0] by simp_all
    from toFixed2_bounds[OF this] price_changes_bounds[of "rnd (Suc k0)"] Cons.prems(1)
    show ?thesis by (simp add: 1)
  next
    case 2
    from Cons.IH[OF Cons.prems(1) 2] show ?thesis .
  qed
qed

lemma calculateVolatility_subset:
  "set (calculateVolatility False rnd db v0) \<subseteq> set (simulate rnd 0 (materials_tbl db))"
proof -
  have "set (take 8 (sort_key (\<lambda>v. - volatility v) (simulate rnd 0 (materials_tbl db))))
          \<subseteq> set (sort_key (\<lambda>v. - volatility v) (simulate rnd 0 (materials_tbl db)))"
    by (rule set_take_subset)
  then show ?thesis by (simp add: calculateVolatility_def)
qed

text \<open>
  C7 says that the volatility percentages and the price-change counts are a function of
  the fetched data, so that two evaluations over the same data give the same figures.
  The code draws both from \<open>Math.random()\<close> (the comment in \<open>calculateVolatility\<close>
  says the figures are simulated for the demonstration). Over the same example shop, the
  draws that are all 0 give volatilities 0 and counts 1, the draws that are all one half
  give volatilities 10 and counts 6.
\<close>

theorem C7_counterexample:
  "map volatility (calculateVolatility False (\<lambda>k. 0) shop []) = [0, 0] \<and>
   map volatility (calculateVolatility False (\<lambda>k. 1 / 2) shop []) = [10, 10] \<and>
   map price_changes (calculateVolatility False (\<lambda>k. 0) shop []) = [1, 1] \<and>
   map price_changes (calculateVolatility False (\<lambda>k. 1 / 2) shop []) = [6, 6] \<and>
   calculateVolatility False (\<lambda>k. 0) shop [] \<noteq> calculateVolatility False (\<lambda>k. 1 / 2) shop []"
  by (simp add: calculateVolatility_def shop_def toFixed2_def flour_def rice_def)

lemma simulate_constant_draws:
  "v \<in> set (simulate (\<lambda>k. c) k0 ms) \<Longrightarrow> volatility v = toFixed2 (c * 20)"
  by (induction ms arbitrary: k0) auto

lemma length_simulate: "length (simulate rnd k0 ms) = length ms"
  by (induction ms arbitrary: k0) simp_all

lemma calculateVolatility_nonempty:
  "materials_tbl db \<noteq> [] \<Longrightarrow> calculateVolatility False rnd db v0 \<noteq> []"
proof -
  assume "materials_tbl db \<noteq> []"
  then have "0 < length (calculateVolatility False rnd db v0)"
    by (simp add: calculateVolatility_def length_simulate)
  then show ?thesis by auto
qed

lemma calculateVolatility_draws_matter:
  assumes "materials_tbl db \<noteq> []"
  shows "calculateVolatility False (\<lambda>k. 0) db v1 \<noteq> calculateVolatility False (\<lambda>k. 1 / 2) db v2"
proof
  assume eq: "calculateVolatility False (\<lambda>k. 0) db v1 = calculateVolatility False (\<lambda>k. 1 / 2) db v2"
  from calculateVolatility_nonempty[OF assms, of "\<lambda>k. 0" v1]
  obtain v where v: "v \<in> set (calculateVolatility False (\<lambda>k. 0) db v1)"
    by (cases "calculateVolatility False (\<lambda>k. 0) db v1") auto
  then have "v \<in> set (simulate (\<lambda>k. 0) 0 (materials_tbl db))"
    using calculateVolatility_subset by blast
  then have a: "volatility v = toFixed2 (0 * 20)" by (rule simulate_constant_draws)
  from v eq have "v \<in> set (calculateVolatility False (\<lambda>k. 1 / 2) db v2)" by simp
  then have "v \<in> set (simulate (\<lambda>k. 1 / 2) 0 (materials_tbl db))"
    using calculateVolatility_subset by blast
  then have b: "volatility v = toFixed2 (1 / 2 * 20)" by (rule simulate_constant_draws)
  from a b show False by (simp add: toFixed2_def)
qed

text \<open>
  C7 as the code has it: the figures are simulated. They are a function of the fetched
  materials and of the draws of \<open>Math.random()\<close>, two for each material, and of nothing
  else (the price history is not an argument): two evaluations over the same materials
  whose draws agree give the same figures, and over any materials but the empty list
  there are draws that give different figures (all draws 0 and all draws one half).
  When every draw lies in the range of \<open>Math.random()\<close>, from 0 up to but not including 1,
  every volatility lies between 0 and 20 and every price-change count between 1 and 10;
  at most 8 figures are kept.
\<close>

theorem C7_figures_follow_the_draws:
  "((\<forall>k<2 * length (materials_tbl db). rnd1 k = rnd2 k) \<longrightarrow>
      calculateVolatility False rnd1 db v1 = calculateVolatility False rnd2 db v2) \<and>
   (materials_tbl db \<noteq> [] \<longrightarrow>
      calculateVolatility False (\<lambda>k. 0) db v1 \<noteq> calculateVolatility False (\<lambda>k. 1 / 2) db v2) \<and>
   ((\<forall>k. 0 \<le> rnd k \<and> rnd k < 1) \<longrightarrow>
      (\<forall>v \<in> set (calculateVolatility False rnd db v0).
         0 \<le> volatility v \<and> volatility v \<le> 20 \<and>
         1 \<le> price_changes v \<and> price_changes v \<le> 10)) \<and>
   length (calculateVolatility False rnd db v0) \<le> 8"
proof (intro conjI)
  show "(\<forall>k<2 * length (materials_tbl db). rnd1 k = rnd2 k) \<longrightarrow>
      calculateVolatility False rnd1 db v1 = calculateVolatility False rnd2 db v2"
  proof
    assume "\<forall>k<2 * length (materials_tbl db). rnd1 k = rnd2 k"
    then have "simulate rnd1 0 (materials_tbl db) = simulate rnd2 0 (materials_tbl db)"
      by (intro simulate_cong) simp
    then show "calculateVolatility False rnd1 db v1 = calculateVolatility False rnd2 db v2"
      by (simp add: calculateVolatility_def)
  qed
next
  show "materials_tbl db \<noteq> [] \<longrightarrow>
      calculateVolatility False (\<lambda>k. 0) db v1 \<noteq> calculateVolatility False (\<lambda>k. 1 / 2) db v2"
    using calculateVolatility_draws_matter by blast
next
  show "(\<forall>k. 0 \<le> rnd k \<and> rnd k < 1) \<longrightarrow>
      (\<forall>v \<in> set (calculateVolatility False rnd db v0).
         0 \<le> volatility v \<and> volatility v \<le> 20 \<and>
         1 \<le> price_changes v \<and> price_changes v \<le> 10)"
  proof (intro impI ballI)
    fix v
    assume r: "\<forall>k. 0 \<le> rnd k \<and> rnd k < 1"
      and "v \<in> set (calculateVolatility False rnd db v0)"
    then have "v \<in> set (simulate rnd 0 (materials_tbl db))"
      using calculateVolatility_subset by blast
    from simulate_bounds[OF r this]
    show "0 \<le> volatility v \<and> volatility v \<le> 20 \<and>
          1 \<le> price_changes v \<and> price_changes v \<le> 10" .
  qed
next
  show "length (calculateVolatility False rnd db v0) \<le> 8"
    by (simp add: calculateVolatility_def)
qed

text \<open>
  An instance of C7: on the example shop (two materials, so four draws) two sequences of
  draws that agree on the first four and differ afterwards give the same figures, and
  the draws that are all 0 give other figures than the draws that are all one half.
\<close>

theorem C7_figures_follow_the_draws_witness:
  "length (materials_tbl shop) = 2 \<and>
   materials_tbl shop \<noteq> [] \<and>
   (\<forall>k. 0 \<le> (\<lambda>k. 1 / 2 :: real) k \<and> (\<lambda>k. 1 / 2 :: real) k < 1) \<and>
   calculateVolatility False (\<lambda>k. if k < 4 then 1 / 2 else 0) shop [] =
     calculateVolatility False (\<lambda>k. 1 / 2) shop [] \<and>
   calculateVolatility False (\<lambda>k. 0) shop [] \<noteq> calculateVolatility False (\<lambda>k. 1 / 2) shop [] \<and>
   map volatility (calculateVolatility False (\<lambda>k. 1 / 2) shop []) = [10, 10] \<and>
   map price_changes (calculateVolatility False (\<lambda>k. 1 / 2) shop []) = [6, 6]"
proof -
  have n: "length (materials_tbl shop) = 2" by (simp add: shop_def)
  then have ne: "materials_tbl shop \<noteq> []" by auto
  have a: "\<forall>k<2 * length (materials_tbl shop). (if k < 4 then 1 / 2 else 0) = (1 / 2 :: real)"
    by (simp add: n)
  have b: "\<forall>k::nat. 0 \<le> (1 / 2 :: real) \<and> (1 / 2 :: real) < 1" by simp
  note inst = C7_figures_follow_the_draws[where db = shop
      and ?rnd1.0 = "\<lambda>k. if k < 4 then 1 / 2 else 0"
      and ?rnd2.0 = "\<lambda>k. 1 / 2" and rnd = "\<lambda>k. 1 / 2" and ?v1.0 = "[]" and ?v2.0 = "[]"
      and ?v0.0 = "[]"]
  from inst have "calculateVolatility False (\<lambda>k. if k < 4 then 1 / 2 else 0) shop [] =
     calculateVolatility False (\<lambda>k. 1 / 2) shop []"
    using a by simp
  moreover from inst have "calculateVolatility False (\<lambda>k. 0) shop [] \<noteq>
     calculateVolatility False (\<lambda>k. 1 / 2) shop []"
    using ne by blast
  moreover have "map volatility (calculateVolatility False (\<lambda>k. 1 / 2) shop []) = [10, 10] \<and>
   map price_changes (calculateVolatility False (\<lambda>k. 1 / 2) shop []) = [6, 6]"
    by (simp add: calculateVolatility_def shop_def toFixed2_def flour_def rice_def)
  ultimately show ?thesis using n ne b by simp
qed

section \<open>C8: the group orders the vendor dashboard lists\<close>

lemma fetch_step_list:
  "g \<in> set (vd_groupOrders (fetch_step e d)) \<Longrightarrow>
   (case e of FetchGroupOrders rf now db \<Rightarrow>
      if rf then g \<in> set (vd_groupOrders d)
      else go_status g = ''open'' \<and> now < go_expires_at g)"
  by (cases e) (auto simp add: fetchGroupOrders_def split: if_splits)

lemma run_fetches_listed:
  "g \<in> set (vd_groupOrders (run_fetches es d)) \<Longrightarrow>
   (last_delivery es = None \<and> g \<in> set (vd_groupOrders d)) \<or>
   (go_status g = ''open'' \<and> (\<exists>t. last_delivery es = Some t \<and> t < go_expires_at g))"
proof (induction es arbitrary: d)
  case Nil
  then show ?case by simp
next
  case (Cons e es)
  obtain rf now db where e: "e = FetchGroupOrders rf now db" by (cases e)
  from Cons.prems have "g \<in> set (vd_groupOrders (run_fetches es (fetch_step e d)))" by simp
  from Cons.IH[OF this] show ?case
  proof
    assume a: "last_delivery es = None \<and> g \<in> set (vd_groupOrders (fetch_step e d))"
    then have "if rf then g \<in> set (vd_groupOrders d)
               else go_status g = ''open'' \<and> now < go_expires_at g"
      using fetch_step_list[of g e d] by (simp add: e)
    with a show ?thesis by (cases rf) (simp_all add: e)
  next
    assume "go_status g = ''open'' \<and> (\<exists>t. last_delivery es = Some t \<and> t < go_expires_at g)"
    then show ?thesis by (auto simp add: e)
  qed
qed

text \<open>
  C8 says that the list holds only group orders that are open and expire after the time
  of the fetch, so that a join is never offered on a closed or expired group order. The
  first part holds; the second holds only as of the fetch. Neither the Join button nor
  \<open>joinGroupOrder\<close> looks at the clock or at the status: the list fetched at time 10
  holds the group order \<open>g1\<close>, which expires at 20; at any later time, 30 say, and until
  another fetch delivers, it is still the dashboard's list, the button of \<open>g1\<close> is
  enabled for \<open>v1\<close>, and the join is written to the expired group order.
\<close>

theorem C8_counterexample:
  "(let d = fetchGroupOrders False 10 shop (vendor_at_mount ''v1'')
    in vd_groupOrders d = [pool] \<and>
       join_button_enabled d pool \<and>
       go_expires_at pool = 20 \<and> \<not> (30 < go_expires_at pool) \<and>
       group_orders_tbl (joinGroupOrder_v1 False d ''g1'' shop) =
         [pool\<lparr>go_participants := [''v0'', ''v1''], go_total_quantity := 2\<rparr>])"
  by (simp add: Let_def fetchGroupOrders_def shop_def vendor_at_mount_def pool_def
        join_button_enabled_def joinGroupOrder_v1_def update_where_def)

text \<open>
  C8 as the code has it. The dashboard starts with an empty list, and only a fetch that
  delivers replaces it. After any run of fetches every listed group order was open and
  had its \<open>expires_at\<close> strictly later than the time of the last fetch that delivered.
  The Join button is enabled only for listed group orders, and a join on an id that is
  not listed changes nothing. The list is not checked again between fetches.
\<close>

theorem C8_listed_as_of_last_fetch:
  assumes "vd_groupOrders d = []"
    and "g \<in> set (vd_groupOrders (run_fetches es d))"
  shows "go_status g = ''open'' \<and>
         (\<exists>t. last_delivery es = Some t \<and> t < go_expires_at g) \<and>
         (\<forall>g'. join_button_enabled (run_fetches es d) g' \<longrightarrow>
                 g' \<in> set (vd_groupOrders (run_fetches es d))) \<and>
         (\<forall>gid uf pf q db.
            find (\<lambda>go. go_id go = gid) (vd_groupOrders (run_fetches es d)) = None \<longrightarrow>
              joinGroupOrder_v1 uf (run_fetches es d) gid db = db \<and>
              joinGroupOrder_v2 pf uf (run_fetches es d) gid q db = db)"
proof -
  from run_fetches_listed[OF assms(2)] assms(1)
  have "go_status g = ''open'' \<and> (\<exists>t. last_delivery es = Some t \<and> t < go_expires_at g)"
    by simp
  then show ?thesis
    by (simp add: join_button_enabled_def joinGroupOrder_v1_def joinGroupOrder_v2_def
          split: option.splits)
qed

text \<open>
  An instance of C8: a fetch at time 10 delivers, a fetch at time 30 fails; \<open>g1\<close> is
  listed, open, and expires after 10.
\<close>

theorem C8_listed_as_of_last_fetch_witness:
  "vd_groupOrders (vendor_at_mount ''v1'') = [] \<and>
   pool \<in> set (vd_groupOrders
                 (run_fetches [FetchGroupOrders False 10 shop, FetchGroupOrders True 30 shop]
                    (vendor_at_mount ''v1''))) \<and>
   go_status pool = ''open'' \<and>
   last_delivery [FetchGroupOrders False 10 shop, FetchGroupOrders True 30 shop] = Some 10 \<and>
   10 < go_expires_at pool"
proof -
  let ?es = "[FetchGroupOrders False 10 shop, FetchGroupOrders True 30 shop]"
  have a: "vd_groupOrders (vendor_at_mount ''v1'') = []" by (simp add: vendor_at_mount_def)
  have b: "pool \<in> set (vd_groupOrders (run_fetches ?es (vendor_at_mount ''v1'')))"
    by (simp add: fetchGroupOrders_def shop_def pool_def)
  have c: "last_delivery ?es = Some 10" by simp
  from C8_listed_as_of_last_fetch[OF a b] a b c show ?thesis by simp
qed

section \<open>C9: order status on the supplier dashboard\<close>

text \<open>
  C9 says that through the supplier dashboard the status of an order only moves from
  pending to confirmed, from pending to cancelled and from confirmed to delivered, and
  never out of delivered or cancelled (\<open>spec_allowed_transition\<close>). The buttons depend
  on the status in the fetched list, and \<open>updateOrderStatus\<close> writes the new status
  without reading the stored one; the \<open>fetchOrders\<close> it starts afterwards is not
  awaited and may fail. On the example shop the supplier declines order \<open>o1\<close>, which is
  then cancelled in the table, and, the list still showing it as pending, accepts it:
  the stored status moves from cancelled to confirmed.
\<close>

theorem C9_counterexample:
  "(let d = supplier_fetchOrders False shop (supplier_at_mount ''s1'');
        db1 = click_status_button False d order1 ''cancelled'' shop;
        db2 = click_status_button False d order1 ''confirmed'' db1
    in sd_orders d = [order1] \<and>
       offered_statuses order1 = [''confirmed'', ''cancelled''] \<and>
       map o_status (orders_tbl shop) = [''pending'', ''pending''] \<and>
       map o_status (orders_tbl db1) = [''cancelled'', ''pending''] \<and>
       map o_status (orders_tbl db2) = [''confirmed'', ''pending''] \<and>
       \<not> spec_allowed_transition ''cancelled'' ''confirmed'')"
  by (simp add: Let_def supplier_fetchOrders_def supplier_at_mount_def shop_def order1_def
        order2_def click_status_button_def offered_statuses_def updateOrderStatus_def
        update_where_def spec_allowed_transition_def)

text \<open>
  C9 as the code has it. Every status update the dashboard offers leads from the status
  in the fetched list along one of the three transitions, and none is offered for an
  order listed as delivered or cancelled. A click whose request is carried out writes
  the new status to the rows with the order's id and leaves the other rows as they are;
  where the stored status is the listed one, the stored status moves along one of the
  three transitions. A status that is not offered cannot be clicked.
\<close>

theorem C9_transitions_from_fetched_status:
  assumes "order \<in> set (sd_orders d)" and "status \<in> set (offered_statuses order)"
  shows "spec_allowed_transition (o_status order) status \<and>
         (let tbl = orders_tbl db;
              tbl' = orders_tbl (click_status_button False d order status db)
          in length tbl' = length tbl \<and>
             (\<forall>i<length tbl.
                (o_id (tbl ! i) \<noteq> o_id order \<longrightarrow> tbl' ! i = tbl ! i) \<and>
                (o_id (tbl ! i) = o_id order \<longrightarrow>
                   tbl' ! i = (tbl ! i)\<lparr>o_status := status\<rparr> \<and>
                   (o_status (tbl ! i) = o_status order \<longrightarrow>
                      spec_allowed_transition (o_status (tbl ! i)) (o_status (tbl' ! i)))))) \<and>
         (\<forall>other. o_status other = ''delivered'' \<or> o_status other = ''cancelled'' \<longrightarrow>
                    offered_statuses other = []) \<and>
         (\<forall>other status' rf. status' \<notin> set (offered_statuses other) \<longrightarrow>
                    click_status_button rf d other status' db = db)"
proof -
  have t: "spec_allowed_transition (o_status order) status"
    using assms(2) by (auto simp add: offered_statuses_def spec_allowed_transition_def
        split: if_splits)
  have c: "click_status_button False d order status db =
           db\<lparr>orders_tbl := update_where (\<lambda>r. o_id r = o_id order)
                  (\<lambda>r. r\<lparr>o_status := status\<rparr>) (orders_tbl db)\<rparr>"
    using assms by (simp add: click_status_button_def updateOrderStatus_def)
  show ?thesis
    unfolding c Let_def using t
    by (simp add: update_where_nth update_where_def offered_statuses_def
          click_status_button_def)
qed

text \<open>An instance of C9: the supplier accepts the pending order \<open>o1\<close>.\<close>

theorem C9_transitions_from_fetched_status_witness:
  "order1 \<in> set (sd_orders (supplier_fetchOrders False shop (supplier_at_mount ''s1''))) \<and>
   ''confirmed'' \<in> set (offered_statuses order1) \<and>
   spec_allowed_transition (o_status order1) ''confirmed'' \<and>
   orders_tbl (click_status_button False
                 (supplier_fetchOrders False shop (supplier_at_mount ''s1''))
                 order1 ''confirmed'' shop) =
     [order1\<lparr>o_status := ''confirmed''\<rparr>, order2]"
proof -
  let ?d = "supplier_fetchOrders False shop (supplier_at_mount ''s1'')"
  have a: "order1 \<in> set (sd_orders ?d)"
    by (simp add: supplier_fetchOrders_def supplier_at_mount_def shop_def order1_def order2_def)
  have b: "''confirmed'' \<in> set (offered_statuses order1)"
    by (simp add: offered_statuses_def order1_def)
  from C9_transitions_from_fetched_status[OF a b, of shop] a b show ?thesis
    by (simp add: click_status_button_def updateOrderStatus_def update_where_def shop_def
          order1_def order2_def)
qed

section \<open>C10: one cart row for each vendor and material\<close>

lemma filter_pair_le1:
  "distinct (map f rows) \<Longrightarrow> length (filter (\<lambda>r. f r = k) rows) \<le> 1"
proof (induction rows)
  case Nil
  then show ?case by simp
next
  case (Cons a rows)
  show ?case
  proof (cases "f a = k")
    case True
    with Cons.prems have "\<forall>x \<in> set rows. f x \<noteq> k" by (auto simp add: image_iff)
    then have "filter (\<lambda>r. f r = k) rows = []" by (simp add: filter_empty_conv)
    with True show ?thesis by simp
  next
    case False
    with Cons show ?thesis by simp
  qed
qed

lemma maybeSingle_None_unique:
  assumes "distinct (map f rows)" and "maybeSingle (filter (\<lambda>r. f r = k) rows) = None"
  shows "k \<notin> f ` set rows"
proof -
  from filter_pair_le1[OF assms(1), of k] assms(2)
  have "filter (\<lambda>r. f r = k) rows = []"
    by (cases "filter (\<lambda>r. f r = k) rows") (auto simp add: maybeSingle_def split: list.splits)
  then show ?thesis by (auto simp add: filter_empty_conv)
qed

lemma maybeSingle_Some_member:
  "maybeSingle xs = Some x \<Longrightarrow> x \<in> set xs"
  by (auto simp add: maybeSingle_def split: list.splits)

text \<open>
  Where the lookup is answered and no cart row has quantity 0, \<open>addToCart\<close> keeps the
  pairs of vendor and material distinct.
\<close>

lemma addToCart_keeps_pairs_unique:
  assumes "cart_pairs_unique (cart_items_tbl db)"
    and "\<forall>r \<in> set (cart_items_tbl db). ci_quantity r \<noteq> 0"
  shows "cart_pairs_unique (cart_items_tbl (addToCart False reply d materialId quantity db))"
proof (cases "vd_user d")
  case None
  then show ?thesis using assms(1) by (simp add: addToCart_def)
next
  case (Some uid)
  let ?pair = "\<lambda>r. (ci_vendor_id r, ci_material_id r)"
  let ?sel = "filter (\<lambda>r. ci_vendor_id r = uid \<and> ci_material_id r = materialId)
                (cart_items_tbl db)"
  have dst: "distinct (map ?pair (cart_items_tbl db))"
    using assms(1) unfolding cart_pairs_unique_def .
  show ?thesis
  proof (cases "maybeSingle ?sel")
    case None
    have "maybeSingle (filter (\<lambda>r. ?pair r = (uid, materialId)) (cart_items_tbl db)) = None"
      using None by simp
    from maybeSingle_None_unique[OF dst this]
    have new: "(uid, materialId) \<notin> ?pair ` set (cart_items_tbl db)" .
    have "cart_items_tbl (addToCart False reply d materialId quantity db) =
            (if fails reply then cart_items_tbl db
             else cart_items_tbl db @ [\<lparr>ci_id = new_id reply, ci_vendor_id = uid,
                    ci_material_id = materialId, ci_quantity = quantity\<rparr>])"
      using Some None by (simp add: addToCart_def)
    then show ?thesis using dst new by (simp add: cart_pairs_unique_def)
  next
    case found: (Some item)
    from maybeSingle_Some_member[OF found] have "item \<in> set (cart_items_tbl db)" by simp
    with assms(2) have nz: "ci_quantity item \<noteq> 0" by blast
    have upd: "cart_items_tbl (addToCart False reply d materialId quantity db) =
            (if fails reply then cart_items_tbl db
             else update_where (\<lambda>r. ci_id r = ci_id item)
                    (\<lambda>r. r\<lparr>ci_quantity := ci_quantity item + quantity\<rparr>) (cart_items_tbl db))"
      using Some found nz by (simp add: addToCart_def)
    have "map ?pair (update_where (\<lambda>r. ci_id r = ci_id item)
              (\<lambda>r. r\<lparr>ci_quantity := ci_quantity item + quantity\<rparr>) (cart_items_tbl db))
          = map ?pair (cart_items_tbl db)"
      by (rule map_update_where_frame) simp
    then show ?thesis using dst by (simp add: upd cart_pairs_unique_def)
  qed
qed

text \<open>
  C10 says that \<open>addToCart\<close> keeps at most one cart row for each vendor and material:
  an existing row gets the added quantity and no row is inserted. The comments of the
  function say the same (\<open>Check if item already exists in cart\<close>, \<open>Update quantity if
  item exists\<close>), and the update and the insert stop at a failed request
  (\<open>if (error) throw error\<close>), but the lookup takes only \<open>data\<close> from its answer and does
  not look at \<open>error\<close>. On the empty cart of the example shop vendor \<open>v1\<close> presses Add to
  Cart for \<open>m1\<close> twice, one unit each time; the lookup of the second call fails, so that
  no existing item is seen, and its insert is carried out: the cart ends with two rows
  for the same vendor and material, each with quantity 1, instead of one row with
  quantity 2.
\<close>

theorem C10_failed_lookup_duplicates_row:
  "(let d = vendor_at_mount ''v1'';
        db1 = addToCart False (accepted ''c1'' []) d ''m1'' 1 shop;
        db2 = addToCart True (accepted ''c2'' []) d ''m1'' 1 db1
    in cart_items_tbl shop = [] \<and>
       cart_items_tbl db1 =
         [\<lparr>ci_id = ''c1'', ci_vendor_id = ''v1'', ci_material_id = ''m1'', ci_quantity = 1\<rparr>] \<and>
       cart_pairs_unique (cart_items_tbl db1) \<and>
       cart_items_tbl db2 =
         [\<lparr>ci_id = ''c1'', ci_vendor_id = ''v1'', ci_material_id = ''m1'', ci_quantity = 1\<rparr>,
          \<lparr>ci_id = ''c2'', ci_vendor_id = ''v1'', ci_material_id = ''m1'', ci_quantity = 1\<rparr>] \<and>
       \<not> cart_pairs_unique (cart_items_tbl db2))"
  by (simp add: Let_def addToCart_def vendor_at_mount_def accepted_def shop_def
        maybeSingle_def cart_pairs_unique_def)

end
